theory Spec2Isabelle
  imports Main "HOL-Library.Word"
begin

section \<open>JavaScript strings\<close>

text \<open>
  A JavaScript string is a sequence of UTF-16 code units, and \<open>s.length\<close> counts code
  units. String literals of the source are ASCII (apart from the check mark of two status
  messages, written as its code unit) and are embedded with \<open>lit\<close>.
\<close>

type_synonym jschar = "16 word"
type_synonym jsstring = "jschar list"

definition lit :: "string \<Rightarrow> jsstring" where
  "lit s = map (\<lambda>c. of_nat (of_char c)) s"

text \<open>
  The code units that \<open>String.prototype.trim\<close> strips and that the regular expression
  class \<open>\s\<close> matches: the WhiteSpace and LineTerminator code points of ECMAScript.
\<close>

definition is_space :: "jschar \<Rightarrow> bool" where
  "is_space c \<longleftrightarrow>
     c = 0x09 \<or> c = 0x0A \<or> c = 0x0B \<or> c = 0x0C \<or> c = 0x0D \<or> c = 0x20 \<or> c = 0xA0
     \<or> c = 0x1680 \<or> (0x2000 \<le> c \<and> c \<le> 0x200A) \<or> c = 0x2028 \<or> c = 0x2029
     \<or> c = 0x202F \<or> c = 0x205F \<or> c = 0x3000 \<or> c = 0xFEFF"

definition trim :: "jsstring \<Rightarrow> jsstring" where
  "trim s = rev (dropWhile is_space (rev (dropWhile is_space s)))"

text \<open>
  \<open>s.split(/\s+/)\<close>: the pieces of \<open>s\<close> between the maximal runs of white space. A run
  at the start or at the end of \<open>s\<close> leaves an empty piece there, and the empty string
  splits into one empty piece.
\<close>

function split_ws :: "jsstring \<Rightarrow> jsstring list" where
  "split_ws s =
     (let tok = takeWhile (\<lambda>c. \<not> is_space c) s;
          rest = dropWhile (\<lambda>c. \<not> is_space c) s
      in if rest = [] then [tok] else tok # split_ws (dropWhile is_space rest))"
  by pat_completeness auto
termination
proof (relation "measure length")
  show "wf (measure length)" by simp
next
  fix s :: jsstring and tok rest
  assume r: "rest = dropWhile (\<lambda>c. \<not> is_space c) s" and ne: "rest \<noteq> []"
  from ne obtain c cs where rc: "rest = c # cs" by (cases rest) auto
  with r have "dropWhile (\<lambda>c. \<not> is_space c) s = c # cs" by simp
  then have "is_space c" by (simp add: dropWhile_eq_Cons_conv)
  then have "dropWhile is_space rest = dropWhile is_space cs" using rc by simp
  then have "length (dropWhile is_space rest) \<le> length cs" by (simp add: length_dropWhile_le)
  also have "length cs < length rest" using rc by simp
  also have "length rest \<le> length s" using r by (simp add: length_dropWhile_le)
  finally show "(dropWhile is_space rest, s) \<in> measure length" by simp
qed

declare split_ws.simps [simp del]

text \<open>The decimal rendering of a count inside a template literal.\<close>

fun show_nat :: "nat \<Rightarrow> jsstring" where
  "show_nat n =
     (if n < 10 then [of_nat (48 + n)] else show_nat (n div 10) @ [of_nat (48 + n mod 10)])"

declare show_nat.simps [simp del]

text \<open>
  A count handed to the program as a number (the minimum length of \<open>validateInput\<close>) is a
  non-negative safe integer, below \<open>2^53\<close>; a template literal prints such a number in
  full, as \<open>show_nat\<close> does.
\<close>

type_synonym count = "53 word"

text \<open>
  What a text area gives back for the value it was given: every CR LF pair and every
  remaining CR is read as one LF.
\<close>

fun normalize_newlines :: "jsstring \<Rightarrow> jsstring" where
  "normalize_newlines [] = []"
| "normalize_newlines [c] = [if c = 0x0D then 0x0A else c]"
| "normalize_newlines (c # d # cs) =
     (if c = 0x0D \<and> d = 0x0A then 0x0A # normalize_newlines cs
      else if c = 0x0D then 0x0A # normalize_newlines (d # cs)
      else c # normalize_newlines (d # cs))"

text \<open>
  A property that may be absent reads as \<open>undefined\<close>; inside a template literal and when
  assigned to the value of an element, \<open>undefined\<close> is rendered as the text "undefined".
\<close>

definition to_string :: "jsstring option \<Rightarrow> jsstring" where
  "to_string v = (case v of None \<Rightarrow> lit ''undefined'' | Some s \<Rightarrow> s)"

text \<open>\<open>v || d\<close> on an optional string: \<open>undefined\<close>, \<open>null\<close> and the empty string are falsy.\<close>

definition or_default :: "jsstring option \<Rightarrow> jsstring \<Rightarrow> jsstring" where
  "or_default v d = (case v of None \<Rightarrow> d | Some s \<Rightarrow> if s = [] then d else s)"


section \<open>Data model\<close>

text \<open>The language record of the backend: \<open>{code, name, native}\<close>.\<close>

record language =
  code :: jsstring
  name :: jsstring
  native :: jsstring

text \<open>
  The envelope a backend response parses to. Every property but the \<open>success\<close> flag may
  be absent (\<open>None\<close>, read as \<open>undefined\<close>). \<open>processing_time\<close> is a number; the program only
  ever renders it inside a template literal, so it is held as that rendering.
\<close>

record response =
  success :: bool
  error :: "jsstring option"
  translated_text :: "jsstring option"
  summary :: "jsstring option"
  processing_time :: "jsstring option"
  languages :: "language list option"

text \<open>
  The elements the program reaches through \<open>document.getElementById\<close>, with what it reads
  and writes: \<open>value\<close>, \<open>textContent\<close>, \<open>disabled\<close>, the class list, the option children,
  and the inline opacity of the descendant of class \<open>btn-text\<close> when the element has one.

  What \<open>value\<close> means depends on the element. A text area stores the string it is given
  (\<open>val\<close>) and gives it back with the line breaks normalised. A drop-down selector has no
  stored string: its value is the value of its selected option (\<open>selectedIndex\<close>, \<open>None\<close>
  when no option is selected), and the empty string when none is selected; assigning a
  value selects the first option of that value and deselects all when there is none. On
  any other element \<open>value\<close> is an ordinary property, \<open>val\<close>.
\<close>

record select_option =
  opt_value :: jsstring
  opt_text :: jsstring

datatype kind = TextArea | Select | Other

record element =
  kind :: kind
  val :: jsstring
  textContent :: jsstring
  disabled :: bool
  classList :: "string list"
  options :: "select_option list"
  selectedIndex :: "nat option"
  btn_text :: "jsstring option"

text \<open>\<open>App.state\<close>.\<close>

record app_state =
  state_languages :: "language list"
  currentInputText :: jsstring
  currentOutputText :: "jsstring option"

text \<open>A request handed to \<open>fetch\<close>: method, URL and, for a POST, the JSON body.\<close>

record request =
  req_method :: string
  req_url :: string
  req_body :: "(string \<times> jsstring) list option"

text \<open>
  Everything the program can observe or change: the document (elements by id, the checked
  radio button of each group), the pending \<open>setTimeout\<close> callbacks of the status bar (by
  delay), the requests issued so far, and the controller's state.
\<close>

record world =
  document :: "string \<rightharpoonup> element"
  radios :: "string \<rightharpoonup> jsstring"
  timers :: "nat list"
  requests :: "request list"
  state :: app_state

text \<open>
  Exceptions are values. A statement completes normally with a value or abruptly with an
  exception; the world it leaves behind is kept either way, since JavaScript does not
  undo mutations when an exception is thrown.
\<close>

datatype exn = TypeError | SyntaxError | AbortError

datatype 'a completion = Normal 'a | Throw exn

type_synonym 'a js = "world \<Rightarrow> 'a completion \<times> world"

definition and_then :: "'a js \<Rightarrow> ('a \<Rightarrow> 'b js) \<Rightarrow> 'b js" where
  "and_then m f w = (case m w of (Normal x, w') \<Rightarrow> f x w' | (Throw e, w') \<Rightarrow> (Throw e, w'))"

definition try_catch :: "'a js \<Rightarrow> (exn \<Rightarrow> 'a js) \<Rightarrow> 'a js" where
  "try_catch body handler w =
     (case body w of (Throw e, w') \<Rightarrow> handler e w' | (Normal x, w') \<Rightarrow> (Normal x, w'))"

text \<open>
  \<open>try { body } finally { fin }\<close>: \<open>fin\<close> runs on every completion of \<open>body\<close>; an exception
  of \<open>fin\<close> replaces the body's completion.
\<close>

definition try_finally :: "'a js \<Rightarrow> unit js \<Rightarrow> 'a js" where
  "try_finally body fin w =
     (case body w of (c, w') \<Rightarrow>
        (case fin w' of (Throw e, w'') \<Rightarrow> (Throw e, w'') | (Normal u, w'') \<Rightarrow> (c, w'')))"

text \<open>
  What the network does with a request: \<open>fetch\<close> rejects, or it resolves to a response
  whose \<open>json()\<close> rejects (the body is not JSON) or resolves to the parsed envelope.
\<close>

datatype http_response = JsonRejects exn | Body response

datatype fetch_outcome = FetchRejects exn | Responds http_response

type_synonym backend = "request \<Rightarrow> fetch_outcome"


section \<open>DOM access\<close>

definition getElementById :: "string \<Rightarrow> world \<Rightarrow> element option" where
  "getElementById i w = document w i"

text \<open>
  A property assignment through a reference that \<open>getElementById\<close> returned: it changes
  the element that the document holds under that id.
\<close>

definition update_element :: "string \<Rightarrow> (element \<Rightarrow> element) \<Rightarrow> world \<Rightarrow> world" where
  "update_element i f w =
     (case document w i of None \<Rightarrow> w | Some e \<Rightarrow> w\<lparr>document := (document w)(i \<mapsto> f e)\<rparr>)"

primrec first_index :: "('a \<Rightarrow> bool) \<Rightarrow> 'a list \<Rightarrow> nat option" where
  "first_index P [] = None"
| "first_index P (x # xs) = (if P x then Some 0 else map_option Suc (first_index P xs))"

definition get_value :: "element \<Rightarrow> jsstring" where
  "get_value e =
     (case kind e of
        TextArea \<Rightarrow> normalize_newlines (val e)
      | Select \<Rightarrow>
          (case selectedIndex e of
             None \<Rightarrow> []
           | Some i \<Rightarrow> if i < length (options e) then opt_value (options e ! i) else [])
      | Other \<Rightarrow> val e)"

definition set_value :: "jsstring \<Rightarrow> element \<Rightarrow> element" where
  "set_value v e =
     (case kind e of
        Select \<Rightarrow> e\<lparr>selectedIndex := first_index (\<lambda>opt. opt_value opt = v) (options e)\<rparr>
      | _ \<Rightarrow> e\<lparr>val := v\<rparr>)"

text \<open>
  \<open>select.innerHTML = ''\<close> removes the options, so none is selected. \<open>appendChild\<close> of an
  option adds it last; a drop-down selector with no option selected then selects its first
  option.
\<close>

definition clear_options :: "element \<Rightarrow> element" where
  "clear_options e = e\<lparr>options := [], selectedIndex := None\<rparr>"

definition append_option :: "select_option \<Rightarrow> element \<Rightarrow> element" where
  "append_option opt e =
     e\<lparr>options := options e @ [opt],
       selectedIndex := (if kind e = Select \<and> selectedIndex e = None then Some 0
                         else selectedIndex e)\<rparr>"

definition class_add :: "string \<Rightarrow> element \<Rightarrow> element" where
  "class_add c e = (if c \<in> set (classList e) then e else e\<lparr>classList := classList e @ [c]\<rparr>)"

definition class_remove :: "string list \<Rightarrow> element \<Rightarrow> element" where
  "class_remove cs e = e\<lparr>classList := filter (\<lambda>c. c \<notin> set cs) (classList e)\<rparr>"

definition class_toggle :: "string \<Rightarrow> element \<Rightarrow> element" where
  "class_toggle c e = (if c \<in> set (classList e) then class_remove [c] e else class_add c e)"


section \<open>The UI module\<close>

definition updateStats :: "string \<Rightarrow> string \<Rightarrow> world \<Rightarrow> world" where
  "updateStats textAreaId statsId w =
     (case (getElementById textAreaId w, getElementById statsId w) of
        (Some textArea, Some stats) \<Rightarrow>
          (let text = get_value textArea;
               charCount = length text;
               wordCount = (if trim text \<noteq> [] then length (split_ws (trim text)) else 0)
           in update_element statsId
                (\<lambda>e. e\<lparr>textContent :=
                   lit ''Characters: '' @ show_nat charCount @ lit '' | Words: '' @ show_nat wordCount\<rparr>) w)
      | _ \<Rightarrow> w)"

text \<open>
  \<open>showLoading\<close> and \<open>hideLoading\<close> call \<open>button.querySelector\<close> before they test \<open>button\<close>:
  with no element of that id the call is made on \<open>null\<close> and throws a TypeError.
\<close>

definition showLoading :: "string \<Rightarrow> string \<Rightarrow> unit js" where
  "showLoading buttonId spinnerId w =
     (case getElementById buttonId w of
        None \<Rightarrow> (Throw TypeError, w)
      | Some button \<Rightarrow>
          (case getElementById spinnerId w of
             None \<Rightarrow> (Normal (), w)
           | Some spinner \<Rightarrow>
               (let w1 = update_element buttonId (\<lambda>e. e\<lparr>disabled := True\<rparr>) w;
                    w2 = update_element spinnerId (class_add ''active'') w1
                in (Normal (),
                    (case btn_text button of
                       None \<Rightarrow> w2
                     | Some _ \<Rightarrow> update_element buttonId (\<lambda>e. e\<lparr>btn_text := Some (lit ''0.7'')\<rparr>) w2)))))"

definition hideLoading :: "string \<Rightarrow> string \<Rightarrow> unit js" where
  "hideLoading buttonId spinnerId w =
     (case getElementById buttonId w of
        None \<Rightarrow> (Throw TypeError, w)
      | Some button \<Rightarrow>
          (case getElementById spinnerId w of
             None \<Rightarrow> (Normal (), w)
           | Some spinner \<Rightarrow>
               (let w1 = update_element buttonId (\<lambda>e. e\<lparr>disabled := False\<rparr>) w;
                    w2 = update_element spinnerId (class_remove [''active'']) w1
                in (Normal (),
                    (case btn_text button of
                       None \<Rightarrow> w2
                     | Some _ \<Rightarrow> update_element buttonId (\<lambda>e. e\<lparr>btn_text := Some (lit ''1'')\<rparr>) w2)))))"

text \<open>
  \<open>showStatus(message, type = 'info', duration = 3000)\<close>. The callers pass the defaults
  explicitly. The callback given to \<open>setTimeout\<close> runs later; the model records that it is
  pending.
\<close>

definition showStatus :: "jsstring \<Rightarrow> string \<Rightarrow> nat \<Rightarrow> world \<Rightarrow> world" where
  "showStatus message type duration w =
     (case (getElementById ''statusBar'' w, getElementById ''statusMessage'' w) of
        (Some statusBar, Some statusMessage) \<Rightarrow>
          (let w1 = update_element ''statusBar'' (class_remove [''success'', ''error'', ''show'']) w;
               w2 = update_element ''statusMessage'' (\<lambda>e. e\<lparr>textContent := message\<rparr>) w1;
               w3 = (if type = ''success'' then update_element ''statusBar'' (class_add ''success'') w2
                     else if type = ''error'' then update_element ''statusBar'' (class_add ''error'') w2
                     else w2);
               w4 = update_element ''statusBar'' (class_add ''show'') w3
           in if duration > 0 then w4\<lparr>timers := timers w4 @ [duration]\<rparr> else w4)
      | _ \<Rightarrow> w)"

text \<open>
  \<open>populateLanguageDropdown(selectId, languages, excludeAuto = false)\<close>: empties the
  selector, then appends one option per record, skipping the record of code "auto" when
  \<open>excludeAuto\<close> is set. \<open>language_option\<close> is the option element built for a record and
  \<open>append_language\<close> the callback of \<open>forEach\<close>.
\<close>

definition language_option :: "language \<Rightarrow> select_option" where
  "language_option lang =
     \<lparr>opt_value = code lang, opt_text = name lang @ lit '' ('' @ native lang @ lit '')''\<rparr>"

definition append_language :: "string \<Rightarrow> bool \<Rightarrow> language \<Rightarrow> world \<Rightarrow> world" where
  "append_language selectId excludeAuto lang w =
     (if excludeAuto \<and> code lang = lit ''auto'' then w
      else update_element selectId (append_option (language_option lang)) w)"

definition populateLanguageDropdown :: "string \<Rightarrow> language list \<Rightarrow> bool \<Rightarrow> world \<Rightarrow> world" where
  "populateLanguageDropdown selectId langs excludeAuto w =
     (case getElementById selectId w of
        None \<Rightarrow> w
      | Some select \<Rightarrow>
          fold (append_language selectId excludeAuto) langs
            (update_element selectId clear_options w))"

definition toggleSummarySection :: "world \<Rightarrow> world" where
  "toggleSummarySection w =
     (case getElementById ''summarySection'' w of
        None \<Rightarrow> w
      | Some summarySection \<Rightarrow> update_element ''summarySection'' (class_toggle ''collapsed'') w)"

definition updateOutputButtons :: "bool \<Rightarrow> world \<Rightarrow> world" where
  "updateOutputButtons hasText w =
     (let w1 = (case getElementById ''copyOutput'' w of
                  None \<Rightarrow> w
                | Some copyBtn \<Rightarrow> update_element ''copyOutput'' (\<lambda>e. e\<lparr>disabled := \<not> hasText\<rparr>) w)
      in (case getElementById ''downloadOutput'' w1 of
            None \<Rightarrow> w1
          | Some downloadBtn \<Rightarrow>
              update_element ''downloadOutput'' (\<lambda>e. e\<lparr>disabled := \<not> hasText\<rparr>) w1))"

definition swapLanguages :: "world \<Rightarrow> world" where
  "swapLanguages w =
     (case (getElementById ''sourceLanguage'' w, getElementById ''targetLanguage'' w) of
        (Some sourceSelect, Some targetSelect) \<Rightarrow>
          (if get_value sourceSelect = lit ''auto''
           then showStatus (lit ''Cannot swap with auto-detect'') ''error'' 2000 w
           else
             (let temp = get_value sourceSelect;
                  w1 = update_element ''sourceLanguage'' (set_value (get_value targetSelect)) w;
                  w2 = update_element ''targetLanguage'' (set_value temp) w1
              in showStatus (lit ''Languages swapped'') ''success'' 1500 w2))
      | _ \<Rightarrow> w)"

definition getRadioValue :: "string \<Rightarrow> world \<Rightarrow> jsstring option" where
  "getRadioValue radioName w = radios w radioName"

text \<open>
  \<open>validateInput(text, minLength = 1)\<close> returns the verdict and shows a status message
  when it fails.
\<close>

definition validateInput :: "jsstring \<Rightarrow> count \<Rightarrow> world \<Rightarrow> bool \<times> world" where
  "validateInput text minLength w =
     (if text = [] \<or> trim text = []
      then (False, showStatus (lit ''Please enter some text'') ''error'' 3000 w)
      else if length (trim text) < unat minLength
      then (False,
            showStatus (lit ''Text must be at least '' @ show_nat (unat minLength) @ lit '' characters'')
              ''error'' 3000 w)
      else (True, w))"

section \<open>The API module\<close>

definition baseURL :: string where
  "baseURL = ''http://localhost:5000''"

text \<open>\<open>fetch\<close> issues the request and rejects or resolves as the network decides.\<close>

definition fetch :: "backend \<Rightarrow> request \<Rightarrow> http_response js" where
  "fetch srv req w =
     (let w' = w\<lparr>requests := requests w @ [req]\<rparr>
      in case srv req of
           FetchRejects e \<Rightarrow> (Throw e, w')
         | Responds r \<Rightarrow> (Normal r, w'))"

definition json :: "http_response \<Rightarrow> response js" where
  "json r w = (case r of JsonRejects e \<Rightarrow> (Throw e, w) | Body b \<Rightarrow> (Normal b, w))"

definition connection_failure :: response where
  "connection_failure =
     \<lparr>success = False,
      error = Some (lit ''Failed to connect to server. Please ensure the backend is running.''),
      translated_text = None, summary = None, processing_time = None, languages = None\<rparr>"

text \<open>The arguments that \<open>post\<close> and \<open>get\<close> hand to \<open>fetch\<close>.\<close>

definition post_request :: "string \<Rightarrow> (string \<times> jsstring) list \<Rightarrow> request" where
  "post_request endpoint data =
     \<lparr>req_method = ''POST'', req_url = baseURL @ endpoint, req_body = Some data\<rparr>"

definition get_request :: "string \<Rightarrow> request" where
  "get_request endpoint = \<lparr>req_method = ''GET'', req_url = baseURL @ endpoint, req_body = None\<rparr>"

definition post :: "backend \<Rightarrow> string \<Rightarrow> (string \<times> jsstring) list \<Rightarrow> response js" where
  "post srv endpoint data =
     try_catch
       (and_then (fetch srv (post_request endpoint data)) (\<lambda>response. json response))
       (\<lambda>error w. (Normal connection_failure, w))"

definition get :: "backend \<Rightarrow> string \<Rightarrow> response js" where
  "get srv endpoint =
     try_catch
       (and_then (fetch srv (get_request endpoint)) (\<lambda>response. json response))
       (\<lambda>error w. (Normal connection_failure, w))"

definition translate :: "backend \<Rightarrow> jsstring \<Rightarrow> jsstring \<Rightarrow> jsstring \<Rightarrow> jsstring \<Rightarrow> response js" where
  "translate srv text sourceLang targetLang model =
     post srv ''/translate''
       [(''text'', text), (''source'', sourceLang), (''target'', targetLang), (''model'', model)]"

definition summarize :: "backend \<Rightarrow> jsstring \<Rightarrow> jsstring \<Rightarrow> jsstring \<Rightarrow> jsstring \<Rightarrow> response js" where
  "summarize srv text model len format =
     post srv ''/summarize''
       [(''text'', text), (''model'', model), (''length'', len), (''format'', format)]"

definition getLanguages :: "backend \<Rightarrow> response js" where
  "getLanguages srv = get srv ''/languages''"

definition getTranslationModels :: "backend \<Rightarrow> response js" where
  "getTranslationModels srv = get srv ''/models/translation''"

definition getSummarizationModels :: "backend \<Rightarrow> response js" where
  "getSummarizationModels srv = get srv ''/models/summarization''"


section \<open>The App module\<close>

text \<open>
  An \<open>await\<close> is modelled by the completion of the awaited call: the handlers below run
  from their first statement to their last with no other handler in between.
\<close>

definition check_mark :: jsstring where
  "check_mark = [0x2713]"

definition loadLanguages :: "backend \<Rightarrow> unit js" where
  "loadLanguages srv =
     try_catch
       (and_then (getLanguages srv)
          (\<lambda>response w.
             (case (if success response then languages response else None) of
                Some langs \<Rightarrow>
                  (let w1 = w\<lparr>state := (state w)\<lparr>state_languages := langs\<rparr>\<rparr>;
                       w2 = populateLanguageDropdown ''sourceLanguage'' (state_languages (state w1)) False w1;
                       w3 = populateLanguageDropdown ''targetLanguage'' (state_languages (state w2)) True w2
                   in (Normal (), w3))
              | None \<Rightarrow> (Normal (), showStatus (lit ''Failed to load languages'') ''error'' 3000 w))))
       (\<lambda>error w. (Normal (), showStatus (lit ''Error loading languages'') ''error'' 3000 w))"

definition setDefaultLanguages :: "world \<Rightarrow> world" where
  "setDefaultLanguages w =
     (let w1 = (case getElementById ''sourceLanguage'' w of
                  None \<Rightarrow> w
                | Some sourceSelect \<Rightarrow> update_element ''sourceLanguage'' (set_value (lit ''auto'')) w)
      in (case getElementById ''targetLanguage'' w1 of
            None \<Rightarrow> w1
          | Some targetSelect \<Rightarrow> update_element ''targetLanguage'' (set_value (lit ''hi'')) w1))"

definition clearInput :: "world \<Rightarrow> world" where
  "clearInput w =
     (case getElementById ''inputText'' w of
        None \<Rightarrow> w
      | Some inputText \<Rightarrow>
          (let w1 = update_element ''inputText'' (set_value []) w;
               w2 = w1\<lparr>state := (state w1)\<lparr>currentInputText := []\<rparr>\<rparr>
           in updateStats ''inputText'' ''inputStats'' w2))"

text \<open>
  The \<open>try\<close> block of \<open>handleTranslate\<close>. Reading \<open>.value\<close> of a selector that is not in
  the document throws a TypeError before any request is made.
\<close>

definition translate_try :: "backend \<Rightarrow> jsstring \<Rightarrow> unit js" where
  "translate_try srv text w =
     (case (getElementById ''sourceLanguage'' w, getElementById ''targetLanguage'' w,
            getElementById ''translationModel'' w) of
        (Some sourceLanguage, Some targetLanguage, Some translationModel) \<Rightarrow>
          and_then
            (translate srv text (get_value sourceLanguage) (get_value targetLanguage)
               (get_value translationModel))
            (\<lambda>response w.
               if success response then
                 (let w1 = update_element ''outputText''
                             (set_value (to_string (translated_text response))) w;
                      w2 = w1\<lparr>state := (state w1)\<lparr>currentOutputText := translated_text response\<rparr>\<rparr>;
                      w3 = updateStats ''outputText'' ''outputStats'' w2;
                      w4 = updateOutputButtons True w3
                  in (Normal (),
                      showStatus
                        (check_mark @ lit '' Translated in '' @ to_string (processing_time response) @ lit ''s'')
                        ''success'' 3000 w4))
               else
                 (let w1 = update_element ''outputText'' (set_value []) w
                  in (Normal (),
                      showStatus (or_default (error response) (lit ''Translation failed''))
                        ''error'' 5000 w1)))
            w
      | _ \<Rightarrow> (Throw TypeError, w))"

text \<open>What follows the validation in \<open>handleTranslate\<close>, from "Show loading" on.\<close>

definition translate_request :: "backend \<Rightarrow> jsstring \<Rightarrow> unit js" where
  "translate_request srv text w =
     and_then (showLoading ''translateBtn'' ''translateSpinner'')
       (\<lambda>_ w2.
          try_finally
            (try_catch (translate_try srv text)
               (\<lambda>error w. (Normal (),
                  showStatus (lit ''An error occurred during translation'') ''error'' 3000 w)))
            (hideLoading ''translateBtn'' ''translateSpinner'')
            (showStatus (lit ''Translating...'') ''info'' 0 w2))
       w"

definition handleTranslate :: "backend \<Rightarrow> unit js" where
  "handleTranslate srv w =
     (case (getElementById ''inputText'' w, getElementById ''outputText'' w) of
        (Some inputText, Some outputText) \<Rightarrow>
          (let text = trim (get_value inputText) in
           (case validateInput text 1 w of
              (False, w1) \<Rightarrow> (Normal (), w1)
            | (True, w1) \<Rightarrow> translate_request srv text w1))
      | _ \<Rightarrow> (Normal (), w))"

text \<open>
  The message \<open>Please translate text first or select "Original Text"\<close>; the double quote
  is the code unit 0x22.
\<close>

definition please_translate_first :: jsstring where
  "please_translate_first =
     lit ''Please translate text first or select '' @ [0x22] @ lit ''Original Text'' @ [0x22]"

text \<open>The \<open>try\<close> block of \<open>handleSummarize\<close>.\<close>

definition summarize_try :: "backend \<Rightarrow> jsstring \<Rightarrow> jsstring \<Rightarrow> jsstring \<Rightarrow> unit js" where
  "summarize_try srv text len format w =
     (case getElementById ''summaryModel'' w of
        Some summaryModel \<Rightarrow>
          and_then
            (summarize srv text (get_value summaryModel) len format)
            (\<lambda>response w.
               if success response then
                 (let w1 = update_element ''outputText''
                             (set_value (to_string (summary response))) w;
                      w2 = w1\<lparr>state := (state w1)\<lparr>currentOutputText := summary response\<rparr>\<rparr>;
                      w3 = updateStats ''outputText'' ''outputStats'' w2;
                      w4 = updateOutputButtons True w3
                  in (Normal (),
                      showStatus
                        (check_mark @ lit '' Summarized in '' @ to_string (processing_time response) @ lit ''s'')
                        ''success'' 3000 w4))
               else
                 (Normal (),
                  showStatus (or_default (error response) (lit ''Summarization failed''))
                    ''error'' 5000 w))
            w
      | None \<Rightarrow> (Throw TypeError, w))"

text \<open>What follows the validation in \<open>handleSummarize\<close>, from "Show loading" on.\<close>

definition summarize_request :: "backend \<Rightarrow> jsstring \<Rightarrow> jsstring \<Rightarrow> jsstring \<Rightarrow> unit js" where
  "summarize_request srv text len format w =
     and_then (showLoading ''summarizeBtn'' ''summarizeSpinner'')
       (\<lambda>_ w2.
          try_finally
            (try_catch (summarize_try srv text len format)
               (\<lambda>error w. (Normal (),
                  showStatus (lit ''An error occurred during summarization'') ''error'' 3000 w)))
            (hideLoading ''summarizeBtn'' ''summarizeSpinner'')
            (showStatus (lit ''Summarizing...'') ''info'' 0 w2))
       w"

definition handleSummarize :: "backend \<Rightarrow> unit js" where
  "handleSummarize srv w =
     (case (getElementById ''inputText'' w, getElementById ''outputText'' w) of
        (Some inputText, Some outputText) \<Rightarrow>
          (let len = or_default (getRadioValue ''summaryLength'' w) (lit ''short'');
               format = or_default (getRadioValue ''summaryFormat'' w) (lit ''paragraph'');
               source = or_default (getRadioValue ''summarySource'' w) (lit ''original'')
           in if source = lit ''translated'' then
                (let text = trim (get_value outputText) in
                 (case validateInput text 50 w of
                    (False, w1) \<Rightarrow>
                      (Normal (),
                       showStatus please_translate_first ''error'' 3000 w1)
                  | (True, w1) \<Rightarrow> summarize_request srv text len format w1))
              else
                (let text = trim (get_value inputText) in
                 (case validateInput text 50 w of
                    (False, w1) \<Rightarrow>
                      (Normal (),
                       showStatus (lit ''Text must be at least 50 characters for summarization'')
                         ''error'' 3000 w1)
                  | (True, w1) \<Rightarrow> summarize_request srv text len format w1)))
      | _ \<Rightarrow> (Normal (), w))"

section \<open>Notions of the specification and example worlds\<close>

text \<open>A transport-level failure: \<open>fetch\<close> rejects, or the body of the response is not JSON.\<close>

definition transport_fails :: "fetch_outcome \<Rightarrow> bool" where
  "transport_fails out =
     (case out of FetchRejects e \<Rightarrow> True | Responds (JsonRejects e) \<Rightarrow> True | Responds (Body b) \<Rightarrow> False)"

text \<open>A page with no element at all, before any request.\<close>

definition empty_world :: world where
  "empty_world = \<lparr>document = Map.empty, radios = Map.empty, timers = [], requests = [],
     state = \<lparr>state_languages = [], currentInputText = [], currentOutputText = Some []\<rparr>\<rparr>"

text \<open>The envelope that the transport client returns for a request.\<close>

definition reply :: "backend \<Rightarrow> request \<Rightarrow> response" where
  "reply srv req = (case srv req of Responds (Body b) \<Rightarrow> b | _ \<Rightarrow> connection_failure)"

text \<open>
  Example elements: a plain element (a button, a spinner, a line of text), a text area
  holding a text, and a drop-down selector with its options and its selected index.
\<close>

definition blank_element :: element where
  "blank_element =
     \<lparr>kind = Other, val = [], textContent = [], disabled = False, classList = [], options = [],
      selectedIndex = None, btn_text = None\<rparr>"

definition text_area :: "jsstring \<Rightarrow> element" where
  "text_area t = blank_element\<lparr>kind := TextArea, val := t\<rparr>"

definition selector :: "select_option list \<Rightarrow> nat option \<Rightarrow> element" where
  "selector opts i = blank_element\<lparr>kind := Select, options := opts, selectedIndex := i\<rparr>"

definition fox_text :: jsstring where
  "fox_text = lit ''The quick brown fox jumps over the lazy dog near the river bank''"

text \<open>A language list as the backend sends it, and a backend that answers with it.\<close>

definition three_languages :: "language list" where
  "three_languages =
     [\<lparr>code = lit ''auto'', name = lit ''Auto-detect'', native = lit ''Auto''\<rparr>,
      \<lparr>code = lit ''en'', name = lit ''English'', native = lit ''English''\<rparr>,
      \<lparr>code = lit ''hi'', name = lit ''Hindi'', native = lit ''Hindi''\<rparr>]"

definition languages_backend :: backend where
  "languages_backend =
     (\<lambda>req. Responds (Body \<lparr>success = True, error = None, translated_text = None, summary = None,
                              processing_time = None, languages = Some three_languages\<rparr>))"

text \<open>
  The options of the three languages, written out, and the selectors of the example page:
  the source selector offers all three and has "en" selected, the target selector offers
  all but "auto" and has "hi" selected.
\<close>

definition auto_option :: select_option where
  "auto_option = \<lparr>opt_value = lit ''auto'', opt_text = lit ''Auto-detect (Auto)''\<rparr>"

definition en_option :: select_option where
  "en_option = \<lparr>opt_value = lit ''en'', opt_text = lit ''English (English)''\<rparr>"

definition hi_option :: select_option where
  "hi_option = \<lparr>opt_value = lit ''hi'', opt_text = lit ''Hindi (Hindi)''\<rparr>"

definition source_select :: element where
  "source_select = selector [auto_option, en_option, hi_option] (Some 1)"

definition target_select :: element where
  "target_select = selector [en_option, hi_option] (Some 1)"

definition model_select :: element where
  "model_select = selector [\<lparr>opt_value = lit ''default'', opt_text = lit ''Default''\<rparr>] (Some 0)"

text \<open>An example page with every element the handlers look up.\<close>

definition page :: world where
  "page =
     \<lparr>document = map_of
        [(''inputText'', text_area fox_text),
         (''outputText'', text_area []),
         (''inputStats'', blank_element),
         (''outputStats'', blank_element),
         (''sourceLanguage'', source_select),
         (''targetLanguage'', target_select),
         (''translationModel'', model_select),
         (''summaryModel'', model_select),
         (''translateBtn'', blank_element\<lparr>btn_text := Some (lit ''1'')\<rparr>),
         (''translateSpinner'', blank_element),
         (''summarizeBtn'', blank_element\<lparr>btn_text := Some (lit ''1'')\<rparr>),
         (''summarizeSpinner'', blank_element),
         (''copyOutput'', blank_element\<lparr>disabled := True\<rparr>),
         (''downloadOutput'', blank_element\<lparr>disabled := True\<rparr>),
         (''statusBar'', blank_element),
         (''statusMessage'', blank_element)],
      radios = Map.empty, timers = [], requests = [],
      state = \<lparr>state_languages = [], currentInputText = fox_text, currentOutputText = Some []\<rparr>\<rparr>"

text \<open>The text that \<open>handleSummarize\<close> picks: the trimmed output when the source radio is
  "translated", the trimmed input otherwise.\<close>

definition summary_source_text :: "world \<Rightarrow> element \<Rightarrow> element \<Rightarrow> jsstring" where
  "summary_source_text w inputText outputText =
     (if or_default (radios w ''summarySource'') (lit ''original'') = lit ''translated''
      then trim (get_value outputText) else trim (get_value inputText))"

text \<open>
  Loading: the button is disabled and its spinner is active. Idle: the button is enabled
  and its spinner is not active.
\<close>

definition loading :: "string \<Rightarrow> string \<Rightarrow> world \<Rightarrow> bool" where
  "loading buttonId spinnerId w =
     (case (document w buttonId, document w spinnerId) of
        (Some button, Some spinner) \<Rightarrow> disabled button \<and> ''active'' \<in> set (classList spinner)
      | _ \<Rightarrow> False)"

definition idle :: "string \<Rightarrow> string \<Rightarrow> world \<Rightarrow> bool" where
  "idle buttonId spinnerId w =
     (case (document w buttonId, document w spinnerId) of
        (Some button, Some spinner) \<Rightarrow> \<not> disabled button \<and> ''active'' \<notin> set (classList spinner)
      | _ \<Rightarrow> False)"

text \<open>
  The word count of the specification: the white-space-delimited tokens of a text are the
  non-empty pieces between its white-space characters.
\<close>

primrec fields :: "jsstring \<Rightarrow> jsstring list" where
  "fields [] = [[]]"
| "fields (c # cs) =
     (if is_space c then [] # fields cs
      else (case fields cs of [] \<Rightarrow> [[c]] | f # fs \<Rightarrow> (c # f) # fs))"

definition tokens :: "jsstring \<Rightarrow> jsstring list" where
  "tokens s = filter (\<lambda>f. f \<noteq> []) (fields s)"

definition word_count :: "jsstring \<Rightarrow> nat" where
  "word_count t = length (tokens (trim t))"

definition stats_line :: "jsstring \<Rightarrow> jsstring" where
  "stats_line t =
     lit ''Characters: '' @ show_nat (length t) @ lit '' | Words: '' @ show_nat (word_count t)"

text \<open>A page with an input area holding "Hello world" and its statistics line.\<close>

definition hello_page :: world where
  "hello_page = empty_world\<lparr>document := map_of
     [(''inputText'', text_area (lit ''Hello world'')),
      (''inputStats'', blank_element)]\<rparr>"

text \<open>Empty or white space only.\<close>

definition blank :: "jsstring \<Rightarrow> bool" where
  "blank t = (\<forall>c\<in>set t. is_space c)"

text \<open>What the status bar shows: its message and its classes.\<close>

definition status_text :: "world \<Rightarrow> jsstring option" where
  "status_text w = map_option textContent (document w ''statusMessage'')"

definition status_classes :: "world \<Rightarrow> string list option" where
  "status_classes w = map_option classList (document w ''statusBar'')"

text \<open>
  The example page after a short translation ("Hola"), with the summary source radio set to
  "translated".
\<close>

definition short_output_page :: world where
  "short_output_page =
     page\<lparr>document := (document page)(''outputText'' \<mapsto> text_area (lit ''Hola'')),
          radios := [''summarySource'' \<mapsto> lit ''translated'']\<rparr>"

text \<open>The values of the source and target language selectors.\<close>

definition selector_values :: "world \<Rightarrow> jsstring option \<times> jsstring option" where
  "selector_values w =
     (map_option get_value (document w ''sourceLanguage''),
      map_option get_value (document w ''targetLanguage''))"

text \<open>
  The two language selectors as the application builds them: drop-down selectors, the
  target offering every value the source offers except "auto".
\<close>

definition option_values :: "element \<Rightarrow> jsstring list" where
  "option_values e = map opt_value (options e)"

definition language_selectors :: "element \<Rightarrow> element \<Rightarrow> bool" where
  "language_selectors sourceSelect targetSelect \<longleftrightarrow>
     kind sourceSelect = Select \<and> kind targetSelect = Select \<and>
     set (option_values targetSelect) = set (option_values sourceSelect) - {lit ''auto''}"

text \<open>The example page with "auto" selected in the source selector.\<close>

definition auto_source_page :: world where
  "auto_source_page =
     page\<lparr>document := (document page)
            (''sourceLanguage'' \<mapsto> selector [auto_option, en_option, hi_option] (Some 0))\<rparr>"

text \<open>A backend that cannot be reached.\<close>

definition no_backend :: backend where
  "no_backend = (\<lambda>req. FetchRejects TypeError)"

text \<open>The options of a selector.\<close>

definition selector_options :: "world \<Rightarrow> string \<Rightarrow> select_option list option" where
  "selector_options w selectId = map_option options (document w selectId)"

text \<open>
  The requests that \<open>handleTranslate\<close> and \<open>handleSummarize\<close> send, from the elements
  they read.
\<close>

definition translate_payload :: "element \<Rightarrow> element \<Rightarrow> element \<Rightarrow> element \<Rightarrow> request" where
  "translate_payload inputText sourceLanguage targetLanguage translationModel =
     post_request ''/translate''
       [(''text'', trim (get_value inputText)), (''source'', get_value sourceLanguage),
        (''target'', get_value targetLanguage), (''model'', get_value translationModel)]"

definition summarize_payload :: "world \<Rightarrow> element \<Rightarrow> element \<Rightarrow> element \<Rightarrow> request" where
  "summarize_payload w inputText outputText summaryModel =
     post_request ''/summarize''
       [(''text'', summary_source_text w inputText outputText), (''model'', get_value summaryModel),
        (''length'', or_default (radios w ''summaryLength'') (lit ''short'')),
        (''format'', or_default (radios w ''summaryFormat'') (lit ''paragraph''))]"

text \<open>Example backends, and the example page after a translation.\<close>

definition namaste :: jsstring where
  "namaste = lit ''namaste duniya''"

definition translating_backend :: backend where
  "translating_backend =
     (\<lambda>req. Responds (Body \<lparr>success = True, error = None, translated_text = Some namaste,
                              summary = None, processing_time = Some (lit ''0.42''), languages = None\<rparr>))"

definition failing_backend :: backend where
  "failing_backend =
     (\<lambda>req. Responds (Body \<lparr>success = False, error = Some (lit ''Model not available''),
                              translated_text = None, summary = None, processing_time = None,
                              languages = None\<rparr>))"

definition translated_page :: world where
  "translated_page =
     page\<lparr>document := (document page)(''outputText'' \<mapsto> text_area namaste),
          state := (state page)\<lparr>currentOutputText := Some namaste\<rparr>\<rparr>"

text \<open>
  A translation of two lines separated by CR LF, the four code units "a", CR, LF, "b", and
  a backend that answers with it.
\<close>

definition two_lines :: jsstring where
  "two_lines = [0x61, 0x0D, 0x0A, 0x62]"

definition two_lines_backend :: backend where
  "two_lines_backend =
     (\<lambda>req. Responds (Body \<lparr>success = True, error = None, translated_text = Some two_lines,
                              summary = None, processing_time = Some (lit ''0.42''), languages = None\<rparr>))"


section \<open>Properties\<close>

subsection \<open>The transport client\<close>

lemma request_result:
  "\<exists>w'. try_catch (and_then (fetch srv req) (\<lambda>response. json response))
           (\<lambda>error w. (Normal connection_failure, w)) w =
         (Normal (case srv req of Responds (Body b) \<Rightarrow> b | _ \<Rightarrow> connection_failure), w')"
  by (simp add: try_catch_def and_then_def fetch_def json_def Let_def
           split: fetch_outcome.split http_response.split)

text \<open>
  C1. Whatever the endpoint, the payload, the page and the network, \<open>post\<close> and \<open>get\<close>
  complete normally, and when \<open>fetch\<close> or the JSON parse rejects, the value they return is
  the object \<open>{success: false, error: "Failed to connect to server. Please ensure the
  backend is running."}\<close>, with no other property.
\<close>

theorem transport_never_throws:
  "(\<exists>r w'. post srv endpoint payload w = (Normal r, w') \<and>
      (transport_fails (srv (post_request endpoint payload))
         \<longrightarrow> r = \<lparr>success = False,
             error = Some (lit ''Failed to connect to server. Please ensure the backend is running.''),
             translated_text = None, summary = None, processing_time = None, languages = None\<rparr>)) \<and>
   (\<exists>r w'. get srv endpoint w = (Normal r, w') \<and>
      (transport_fails (srv (get_request endpoint))
         \<longrightarrow> r = \<lparr>success = False,
             error = Some (lit ''Failed to connect to server. Please ensure the backend is running.''),
             translated_text = None, summary = None, processing_time = None, languages = None\<rparr>))"
proof (intro conjI)
  let ?p = "post_request endpoint payload"
  let ?g = "get_request endpoint"
  let ?failure = "\<lparr>success = False,
             error = Some (lit ''Failed to connect to server. Please ensure the backend is running.''),
             translated_text = None, summary = None, processing_time = None, languages = None\<rparr>"
  from request_result [of srv ?p w] obtain w' where
    "post srv endpoint payload w =
       (Normal (case srv ?p of Responds (Body b) \<Rightarrow> b | _ \<Rightarrow> connection_failure), w')"
    by (auto simp: post_def)
  then show "\<exists>r w'. post srv endpoint payload w = (Normal r, w') \<and>
      (transport_fails (srv ?p) \<longrightarrow> r = ?failure)"
    by (auto simp: transport_fails_def connection_failure_def
          split: fetch_outcome.splits http_response.splits)
  from request_result [of srv ?g w] obtain w' where
    "get srv endpoint w =
       (Normal (case srv ?g of Responds (Body b) \<Rightarrow> b | _ \<Rightarrow> connection_failure), w')"
    by (auto simp: get_def)
  then show "\<exists>r w'. get srv endpoint w = (Normal r, w') \<and>
      (transport_fails (srv ?g) \<longrightarrow> r = ?failure)"
    by (auto simp: transport_fails_def connection_failure_def
          split: fetch_outcome.splits http_response.splits)
qed

theorem transport_never_throws_witness:
  "transport_fails (FetchRejects TypeError) \<and>
   fst (post (\<lambda>req. FetchRejects TypeError) ''/translate'' [] empty_world) =
     Normal \<lparr>success = False,
             error = Some (lit ''Failed to connect to server. Please ensure the backend is running.''),
             translated_text = None, summary = None, processing_time = None, languages = None\<rparr> \<and>
   transport_fails (Responds (JsonRejects SyntaxError)) \<and>
   fst (get (\<lambda>req. Responds (JsonRejects SyntaxError)) ''/languages'' empty_world) =
     Normal \<lparr>success = False,
             error = Some (lit ''Failed to connect to server. Please ensure the backend is running.''),
             translated_text = None, summary = None, processing_time = None, languages = None\<rparr>"
  using transport_never_throws [of "\<lambda>req. FetchRejects TypeError" "''/translate''" "[]" empty_world]
    transport_never_throws [of "\<lambda>req. Responds (JsonRejects SyntaxError)" "''/languages''" "[]" empty_world]
  by (auto simp: transport_fails_def)

subsection \<open>Frame lemmas\<close>

lemma update_element_document [simp]:
  "document (update_element i f w) = (document w)(i := map_option f (document w i))"
  by (auto simp: update_element_def split: option.splits)

lemma update_element_rest [simp]:
  "radios (update_element i f w) = radios w"
  "timers (update_element i f w) = timers w"
  "requests (update_element i f w) = requests w"
  "state (update_element i f w) = state w"
  by (simp_all add: update_element_def split: option.splits)

lemma showStatus_other:
  "i \<noteq> ''statusBar'' \<Longrightarrow> i \<noteq> ''statusMessage'' \<Longrightarrow> document (showStatus m t d w) i = document w i"
  by (simp add: showStatus_def getElementById_def Let_def split: option.splits)

lemma showStatus_present [simp]:
  "(document (showStatus m t d w) i = None) = (document w i = None)"
  by (simp add: showStatus_def getElementById_def Let_def split: option.splits)

lemma showStatus_rest [simp]:
  "radios (showStatus m t d w) = radios w"
  "requests (showStatus m t d w) = requests w"
  "state (showStatus m t d w) = state w"
  by (simp_all add: showStatus_def getElementById_def Let_def split: option.splits)

lemma showStatus_message:
  "document w ''statusBar'' = Some b \<Longrightarrow> document w ''statusMessage'' = Some e \<Longrightarrow>
   document (showStatus m t d w) ''statusMessage'' = Some (e\<lparr>textContent := m\<rparr>)"
  by (simp add: showStatus_def getElementById_def Let_def)

lemma updateStats_other:
  "i \<noteq> statsId \<Longrightarrow> document (updateStats textAreaId statsId w) i = document w i"
  by (simp add: updateStats_def getElementById_def Let_def split: option.splits)

lemma updateStats_present [simp]:
  "(document (updateStats t s w) i = None) = (document w i = None)"
  by (simp add: updateStats_def getElementById_def Let_def split: option.splits)

lemma updateStats_rest [simp]:
  "radios (updateStats t s w) = radios w"
  "requests (updateStats t s w) = requests w"
  "state (updateStats t s w) = state w"
  "timers (updateStats t s w) = timers w"
  by (simp_all add: updateStats_def getElementById_def Let_def split: option.splits)

lemma updateOutputButtons_other:
  "i \<noteq> ''copyOutput'' \<Longrightarrow> i \<noteq> ''downloadOutput'' \<Longrightarrow> document (updateOutputButtons h w) i = document w i"
  by (simp add: updateOutputButtons_def getElementById_def Let_def split: option.splits)

lemma updateOutputButtons_present [simp]:
  "(document (updateOutputButtons h w) i = None) = (document w i = None)"
  by (simp add: updateOutputButtons_def getElementById_def Let_def split: option.splits)

lemma updateOutputButtons_rest [simp]:
  "radios (updateOutputButtons h w) = radios w"
  "requests (updateOutputButtons h w) = requests w"
  "state (updateOutputButtons h w) = state w"
  "timers (updateOutputButtons h w) = timers w"
  by (simp_all add: updateOutputButtons_def getElementById_def Let_def split: option.splits)

lemma updateOutputButtons_copy:
  "document (updateOutputButtons h w) ''copyOutput'' =
     map_option (\<lambda>e. e\<lparr>disabled := \<not> h\<rparr>) (document w ''copyOutput'')"
  by (simp add: updateOutputButtons_def getElementById_def Let_def split: option.splits)

lemma updateOutputButtons_download:
  "document (updateOutputButtons h w) ''downloadOutput'' =
     map_option (\<lambda>e. e\<lparr>disabled := \<not> h\<rparr>) (document w ''downloadOutput'')"
  by (simp add: updateOutputButtons_def getElementById_def Let_def split: option.splits)


lemma and_then_proj:
  "and_then m f w = (case fst (m w) of Normal x \<Rightarrow> f x (snd (m w)) | Throw e \<Rightarrow> (Throw e, snd (m w)))"
  by (simp add: and_then_def split: prod.splits completion.splits)

lemma try_catch_proj:
  "try_catch body handler w = (case fst (body w) of Throw e \<Rightarrow> handler e (snd (body w)) | Normal x \<Rightarrow> (Normal x, snd (body w)))"
  by (simp add: try_catch_def split: prod.splits completion.splits)

lemma try_finally_proj:
  "try_finally body fin w =
     (case fst (fin (snd (body w))) of
        Throw e \<Rightarrow> (Throw e, snd (fin (snd (body w))))
      | Normal u \<Rightarrow> (fst (body w), snd (fin (snd (body w)))))"
  by (simp add: try_finally_def split: prod.splits completion.splits)

lemma showLoading_fst:
  "fst (showLoading b s w) = (if document w b = None then Throw TypeError else Normal ())"
  by (simp add: showLoading_def getElementById_def Let_def split: option.splits)

lemma hideLoading_fst:
  "fst (hideLoading b s w) = (if document w b = None then Throw TypeError else Normal ())"
  by (simp add: hideLoading_def getElementById_def Let_def split: option.splits)

lemma showLoading_present [simp]:
  "(document (snd (showLoading b s w)) i = None) = (document w i = None)"
  by (simp add: showLoading_def getElementById_def Let_def split: option.splits)

lemma hideLoading_present [simp]:
  "(document (snd (hideLoading b s w)) i = None) = (document w i = None)"
  by (simp add: hideLoading_def getElementById_def Let_def split: option.splits)

lemma showLoading_other:
  "i \<noteq> b \<Longrightarrow> i \<noteq> s \<Longrightarrow> document (snd (showLoading b s w)) i = document w i"
  by (simp add: showLoading_def getElementById_def Let_def split: option.splits)

lemma hideLoading_other:
  "i \<noteq> b \<Longrightarrow> i \<noteq> s \<Longrightarrow> document (snd (hideLoading b s w)) i = document w i"
  by (simp add: hideLoading_def getElementById_def Let_def split: option.splits)

lemma showLoading_rest [simp]:
  "radios (snd (showLoading b s w)) = radios w"
  "requests (snd (showLoading b s w)) = requests w"
  "state (snd (showLoading b s w)) = state w"
  "timers (snd (showLoading b s w)) = timers w"
  by (simp_all add: showLoading_def getElementById_def Let_def split: option.splits)

lemma hideLoading_rest [simp]:
  "radios (snd (hideLoading b s w)) = radios w"
  "requests (snd (hideLoading b s w)) = requests w"
  "state (snd (hideLoading b s w)) = state w"
  "timers (snd (hideLoading b s w)) = timers w"
  by (simp_all add: hideLoading_def getElementById_def Let_def split: option.splits)

lemma showLoading_loading:
  "document w b \<noteq> None \<Longrightarrow> document w s \<noteq> None \<Longrightarrow> b \<noteq> s \<Longrightarrow>
   loading b s (snd (showLoading b s w))"
  by (auto simp: showLoading_def getElementById_def Let_def loading_def class_add_def split: option.splits)

lemma hideLoading_idle:
  "document w b \<noteq> None \<Longrightarrow> document w s \<noteq> None \<Longrightarrow> b \<noteq> s \<Longrightarrow>
   idle b s (snd (hideLoading b s w))"
  by (auto simp: hideLoading_def getElementById_def Let_def idle_def class_remove_def split: option.splits)

lemma post_eq:
  "post srv endpoint payload w =
     (Normal (reply srv (post_request endpoint payload)),
      w\<lparr>requests := requests w @ [post_request endpoint payload]\<rparr>)"
  by (simp add: post_def try_catch_def and_then_def fetch_def json_def reply_def Let_def
           split: fetch_outcome.split http_response.split)

lemma get_eq:
  "get srv endpoint w =
     (Normal (reply srv (get_request endpoint)),
      w\<lparr>requests := requests w @ [get_request endpoint]\<rparr>)"
  by (simp add: get_def try_catch_def and_then_def fetch_def json_def reply_def Let_def
           split: fetch_outcome.split http_response.split)

lemma translate_try_present [simp]:
  "(document (snd (translate_try srv text w)) i = None) = (document w i = None)"
  by (simp add: translate_try_def translate_def post_eq and_then_def getElementById_def Let_def
           split: option.splits)

lemma summarize_try_present [simp]:
  "(document (snd (summarize_try srv text len format w)) i = None) = (document w i = None)"
  by (simp add: summarize_try_def summarize_def post_eq and_then_def getElementById_def Let_def
           split: option.splits)

lemma translate_request_idle:
  assumes "document w ''translateBtn'' \<noteq> None" "document w ''translateSpinner'' \<noteq> None"
  shows "fst (translate_request srv text w) = Normal () \<and>
         idle ''translateBtn'' ''translateSpinner'' (snd (translate_request srv text w))"
  using assms
  by (simp add: translate_request_def and_then_proj try_finally_proj try_catch_proj
        showLoading_fst hideLoading_fst hideLoading_idle del: not_None_eq split: completion.splits)

lemma summarize_request_idle:
  assumes "document w ''summarizeBtn'' \<noteq> None" "document w ''summarizeSpinner'' \<noteq> None"
  shows "fst (summarize_request srv text len format w) = Normal () \<and>
         idle ''summarizeBtn'' ''summarizeSpinner'' (snd (summarize_request srv text len format w))"
  using assms
  by (simp add: summarize_request_def and_then_proj try_finally_proj try_catch_proj
        showLoading_fst hideLoading_fst hideLoading_idle del: not_None_eq split: completion.splits)


subsection \<open>Trimming and validation\<close>

lemma trim_last: "trim s \<noteq> [] \<Longrightarrow> \<not> is_space (last (trim s))"
proof -
  assume ne: "trim s \<noteq> []"
  define ys where "ys = dropWhile is_space (rev (dropWhile is_space s))"
  have t: "trim s = rev ys" by (simp add: trim_def ys_def)
  with ne have y: "ys \<noteq> []" by simp
  then have "\<not> is_space (hd ys)" unfolding ys_def by (rule hd_dropWhile)
  moreover have "last (rev ys) = hd ys" using y by (simp add: last_rev)
  ultimately show ?thesis by (simp add: t)
qed

lemma trim_hd: "trim s \<noteq> [] \<Longrightarrow> \<not> is_space (hd (trim s))"
proof -
  assume ne: "trim s \<noteq> []"
  define d where "d = dropWhile is_space s"
  define ys where "ys = dropWhile is_space (rev d)"
  have t: "trim s = rev ys" by (simp add: trim_def ys_def d_def)
  with ne have y: "ys \<noteq> []" by simp
  have "rev d = takeWhile is_space (rev d) @ ys" by (simp add: ys_def)
  then have "last (rev d) = last ys" using y by (metis last_appendR)
  moreover have dne: "d \<noteq> []" using y by (auto simp: ys_def)
  ultimately have "last ys = hd d" by (simp add: last_rev)
  moreover have "\<not> is_space (hd d)" using dne unfolding d_def by (rule hd_dropWhile)
  moreover have "hd (rev ys) = last ys" using y by (simp add: hd_rev)
  ultimately show ?thesis by (simp add: t)
qed

lemma dropWhile_hd_id: "xs \<noteq> [] \<Longrightarrow> \<not> P (hd xs) \<Longrightarrow> dropWhile P xs = xs"
  by (cases xs) auto

lemma trim_idem [simp]: "trim (trim s) = trim s"
proof (cases "trim s = []")
  case True
  then have "trim (trim s) = trim []" by simp
  also have "trim [] = []" by (simp add: trim_def)
  finally show ?thesis using True by simp
next
  case False
  then have a: "dropWhile is_space (trim s) = trim s"
    by (simp add: dropWhile_hd_id trim_hd)
  from False have b: "dropWhile is_space (rev (trim s)) = rev (trim s)"
    by (simp add: dropWhile_hd_id trim_last hd_rev)
  show ?thesis by (simp only: trim_def [of "trim s"] a b rev_rev_ident)
qed

lemma validateInput_ok:
  "trim text \<noteq> [] \<Longrightarrow> unat minLength \<le> length (trim text) \<Longrightarrow>
   validateInput text minLength w = (True, w)"
  by (auto simp: validateInput_def trim_def)

subsection \<open>Loading and Idle\<close>

lemma handleTranslate_request:
  assumes "document w ''inputText'' = Some inp" "document w ''outputText'' = Some out"
    "trim (get_value inp) \<noteq> []"
  shows "handleTranslate srv w = translate_request srv (trim (get_value inp)) w"
proof -
  from assms(3) have "unat (1 :: count) \<le> length (trim (get_value inp))"
    by (cases "trim (get_value inp)") simp_all
  then have "unat (1 :: count) \<le> length (trim (trim (get_value inp)))" by simp
  with assms(3) have "validateInput (trim (get_value inp)) 1 w = (True, w)"
    by (simp add: validateInput_ok)
  with assms(1,2) show ?thesis
    by (simp add: handleTranslate_def getElementById_def)
qed

lemma handleSummarize_request:
  assumes "document w ''inputText'' = Some inp" "document w ''outputText'' = Some out"
    "50 \<le> length (summary_source_text w inp out)"
  shows "handleSummarize srv w =
     summarize_request srv (summary_source_text w inp out)
       (or_default (radios w ''summaryLength'') (lit ''short''))
       (or_default (radios w ''summaryFormat'') (lit ''paragraph'')) w"
proof -
  let ?t = "summary_source_text w inp out"
  have t: "trim ?t = ?t" by (simp add: summary_source_text_def)
  from assms(3) have "?t \<noteq> []" by auto
  with t assms(3) have "validateInput ?t 50 w = (True, w)"
    by (simp add: validateInput_ok)
  with assms(1,2) show ?thesis
    by (auto simp: handleSummarize_def getElementById_def getRadioValue_def Let_def
          summary_source_text_def)
qed

text \<open>
  C3. A translate action enters the Loading state when the input and output areas exist,
  the trimmed input is not empty, and the translate button and its spinner exist; a
  summarize action when the chosen text has at least 50 characters after trimming and the
  summarize button and its spinner exist. Then, whatever the network answers and whichever
  other elements are missing (success, domain failure, transport failure, or an error
  thrown inside the \<open>try\<close> block), the handler completes normally and leaves the
  button and spinner Idle.
\<close>

theorem loading_always_cleared:
  "(document w ''inputText'' = Some inp \<and> document w ''outputText'' = Some out \<and>
    trim (get_value inp) \<noteq> [] \<and>
    document w ''translateBtn'' \<noteq> None \<and> document w ''translateSpinner'' \<noteq> None
    \<longrightarrow> loading ''translateBtn'' ''translateSpinner''
          (snd (showLoading ''translateBtn'' ''translateSpinner'' w)) \<and>
        fst (handleTranslate srv w) = Normal () \<and>
        idle ''translateBtn'' ''translateSpinner'' (snd (handleTranslate srv w))) \<and>
   (document w ''inputText'' = Some inp \<and> document w ''outputText'' = Some out \<and>
    50 \<le> length (summary_source_text w inp out) \<and>
    document w ''summarizeBtn'' \<noteq> None \<and> document w ''summarizeSpinner'' \<noteq> None
    \<longrightarrow> loading ''summarizeBtn'' ''summarizeSpinner''
          (snd (showLoading ''summarizeBtn'' ''summarizeSpinner'' w)) \<and>
        fst (handleSummarize srv w) = Normal () \<and>
        idle ''summarizeBtn'' ''summarizeSpinner'' (snd (handleSummarize srv w)))"
proof (intro conjI impI)
  assume h: "document w ''inputText'' = Some inp \<and> document w ''outputText'' = Some out \<and>
    trim (get_value inp) \<noteq> [] \<and>
    document w ''translateBtn'' \<noteq> None \<and> document w ''translateSpinner'' \<noteq> None"
  then have eq: "handleTranslate srv w = translate_request srv (trim (get_value inp)) w"
    by (simp add: handleTranslate_request)
  from h show "loading ''translateBtn'' ''translateSpinner''
      (snd (showLoading ''translateBtn'' ''translateSpinner'' w))"
    by (simp add: showLoading_loading)
  from h show "fst (handleTranslate srv w) = Normal ()"
    unfolding eq by (simp add: translate_request_idle)
  from h show "idle ''translateBtn'' ''translateSpinner'' (snd (handleTranslate srv w))"
    unfolding eq by (simp add: translate_request_idle)
next
  assume h: "document w ''inputText'' = Some inp \<and> document w ''outputText'' = Some out \<and>
    50 \<le> length (summary_source_text w inp out) \<and>
    document w ''summarizeBtn'' \<noteq> None \<and> document w ''summarizeSpinner'' \<noteq> None"
  then have eq: "handleSummarize srv w =
     summarize_request srv (summary_source_text w inp out)
       (or_default (radios w ''summaryLength'') (lit ''short''))
       (or_default (radios w ''summaryFormat'') (lit ''paragraph'')) w"
    by (simp add: handleSummarize_request)
  from h show "loading ''summarizeBtn'' ''summarizeSpinner''
      (snd (showLoading ''summarizeBtn'' ''summarizeSpinner'' w))"
    by (simp add: showLoading_loading)
  from h show "fst (handleSummarize srv w) = Normal ()"
    unfolding eq by (simp add: summarize_request_idle)
  from h show "idle ''summarizeBtn'' ''summarizeSpinner'' (snd (handleSummarize srv w))"
    unfolding eq by (simp add: summarize_request_idle)
qed

lemma fox_text_trim: "trim fox_text = fox_text"
  by (simp add: fox_text_def lit_def trim_def is_space_def)

lemma jschar_of_char_inj:
  "((of_nat (of_char c) :: jschar) = of_nat (of_char d)) = (c = d)"
proof
  assume e: "(of_nat (of_char c) :: jschar) = of_nat (of_char d)"
  have "\<And>x. unat (of_nat (of_char x) :: jschar) = of_char x"
  proof -
    fix x :: char
    have "(of_char x :: nat) < 256" by (cases x) simp
    then have "(of_char x :: nat) < 65536" by linarith
    then show "unat (of_nat (of_char x) :: jschar) = of_char x"
      by (simp add: unat_of_nat)
  qed
  with e have "(of_char c :: nat) = of_char d" by metis
  then show "c = d" by simp
qed simp

lemma lit_eq_iff: "(lit a = lit b) = (a = b)"
proof (induction a arbitrary: b)
  case Nil
  then show ?case by (auto simp: lit_def)
next
  case (Cons x xs)
  then show ?case by (cases b) (auto simp: lit_def jschar_of_char_inj)
qed

lemma page_elements:
  "document page ''inputText'' = Some (text_area fox_text)"
  "document page ''outputText'' = Some (text_area [])"
  "document page ''translateBtn'' \<noteq> None"
  "document page ''translateSpinner'' \<noteq> None"
  "document page ''summarizeBtn'' \<noteq> None"
  "document page ''summarizeSpinner'' \<noteq> None"
  "radios page = Map.empty"
  by (simp_all add: page_def)

lemma fox_text_ne: "fox_text \<noteq> []"
  by (simp add: fox_text_def lit_def)

lemma fox_text_length: "length fox_text = 63"
  by (simp add: fox_text_def lit_def)

lemma normalize_newlines_id: "0x0D \<notin> set t \<Longrightarrow> normalize_newlines t = t"
  by (induction t rule: normalize_newlines.induct) auto

lemma text_area_value:
  "get_value (text_area t) = normalize_newlines t" "kind (text_area t) = TextArea"
  by (simp_all add: get_value_def text_area_def blank_element_def)

lemma text_area_kind: "kind (text_area t) = TextArea"
  by (simp add: text_area_def)

lemma fox_area: "get_value (text_area fox_text) = fox_text"
proof -
  have "0x0D \<notin> set fox_text" by (simp add: fox_text_def lit_def)
  then show ?thesis by (simp add: text_area_value normalize_newlines_id)
qed

theorem loading_always_cleared_witness:
  "document page ''inputText'' = Some (text_area fox_text) \<and>
   document page ''outputText'' = Some (text_area []) \<and>
   trim (get_value (text_area fox_text)) \<noteq> [] \<and>
   50 \<le> length (summary_source_text page (text_area fox_text) (text_area [])) \<and>
   fst (handleTranslate (\<lambda>req. FetchRejects TypeError) page) = Normal () \<and>
   idle ''translateBtn'' ''translateSpinner'' (snd (handleTranslate (\<lambda>req. FetchRejects TypeError) page)) \<and>
   fst (handleSummarize (\<lambda>req. FetchRejects TypeError) page) = Normal () \<and>
   idle ''summarizeBtn'' ''summarizeSpinner'' (snd (handleSummarize (\<lambda>req. FetchRejects TypeError) page))"
  using loading_always_cleared [of page "text_area fox_text" "text_area []"
          "\<lambda>req. FetchRejects TypeError"]
  by (simp add: page_elements summary_source_text_def or_default_def fox_area fox_text_trim
        fox_text_length fox_text_ne lit_eq_iff del: not_None_eq)

subsection \<open>The loading helpers without their button\<close>

text \<open>
  C2. The presentation helpers are meant to do nothing when an element is missing. On a
  page without the button, \<open>showLoading\<close> and \<open>hideLoading\<close> throw a TypeError instead:
  they call \<open>querySelector\<close> on the button before testing it.
\<close>

theorem loading_helpers_throw_without_button:
  "showLoading ''translateBtn'' ''translateSpinner'' empty_world = (Throw TypeError, empty_world) \<and>
   hideLoading ''translateBtn'' ''translateSpinner'' empty_world = (Throw TypeError, empty_world)"
  by (simp add: showLoading_def hideLoading_def getElementById_def empty_world_def)

subsection \<open>Text statistics\<close>

lemma fields_ne: "fields s \<noteq> []"
  by (induction s) (auto split: list.splits)

lemma fields_nonspace_append:
  "\<forall>c\<in>set tok. \<not> is_space c \<Longrightarrow> fields (tok @ r) = (tok @ hd (fields r)) # tl (fields r)"
proof (induction tok)
  case Nil
  then show ?case using fields_ne [of r] by (cases "fields r") simp_all
next
  case (Cons c tok)
  then show ?case by simp
qed

lemma tokens_dropWhile: "tokens (dropWhile is_space s) = tokens s"
  by (induction s) (simp_all add: tokens_def)


lemma split_ws_last:
  "dropWhile (\<lambda>c. \<not> is_space c) s = [] \<Longrightarrow> split_ws s = [takeWhile (\<lambda>c. \<not> is_space c) s]"
  by (simp add: split_ws.simps [of s] Let_def del: dropWhile_eq_Nil_conv)

lemma split_ws_more:
  "dropWhile (\<lambda>c. \<not> is_space c) s \<noteq> [] \<Longrightarrow>
   split_ws s = takeWhile (\<lambda>c. \<not> is_space c) s #
                split_ws (dropWhile is_space (dropWhile (\<lambda>c. \<not> is_space c) s))"
  by (simp add: split_ws.simps [of s] Let_def del: dropWhile_eq_Nil_conv)

lemma tokens_split_ws: "filter (\<lambda>f. f \<noteq> []) (split_ws s) = tokens s"
proof (induction s rule: split_ws.induct)
  case (1 s)
  define tok where "tok = takeWhile (\<lambda>c. \<not> is_space c) s"
  define rest where "rest = dropWhile (\<lambda>c. \<not> is_space c) s"
  have s: "s = tok @ rest" by (simp add: tok_def rest_def)
  have tk: "\<forall>c\<in>set tok. \<not> is_space c" unfolding tok_def by (auto dest: set_takeWhileD)
  show ?case
  proof (cases "rest = []")
    case True
    then have "split_ws s = [tok]"
      unfolding tok_def rest_def by (rule split_ws_last)
    moreover have "fields s = [tok]"
      using fields_nonspace_append [OF tk, of "[]"] True s by simp
    ultimately show ?thesis by (simp add: tokens_def)
  next
    case False
    then obtain c cs where rc: "rest = c # cs" by (cases rest) auto
    then have "dropWhile (\<lambda>c. \<not> is_space c) s = c # cs" by (simp add: rest_def)
    then have sp: "is_space c" by (simp add: dropWhile_eq_Cons_conv)
    have sw: "split_ws s = tok # split_ws (dropWhile is_space rest)"
      using False unfolding tok_def rest_def by (rule split_ws_more)
    have ih: "filter (\<lambda>f. f \<noteq> []) (split_ws (dropWhile is_space rest)) =
              tokens (dropWhile is_space rest)"
      using "1.IH" [of tok rest] False by (simp add: tok_def rest_def)
    have "fields s = tok # fields cs"
      using fields_nonspace_append [OF tk, of rest] s rc sp by simp
    then have "tokens s = filter (\<lambda>f. f \<noteq> []) [tok] @ tokens cs"
      by (simp add: tokens_def)
    moreover have "tokens (dropWhile is_space rest) = tokens cs"
      using tokens_dropWhile [of rest] rc sp by (simp add: tokens_def)
    ultimately show ?thesis using sw ih by simp
  qed
qed


lemma split_ws_no_empty:
  "s \<noteq> [] \<Longrightarrow> \<not> is_space (hd s) \<Longrightarrow> \<not> is_space (last s) \<Longrightarrow> [] \<notin> set (split_ws s)"
proof (induction s rule: split_ws.induct)
  case (1 s)
  define tok where "tok = takeWhile (\<lambda>c. \<not> is_space c) s"
  define rest where "rest = dropWhile (\<lambda>c. \<not> is_space c) s"
  have s: "s = tok @ rest" by (simp add: tok_def rest_def)
  have tne: "tok \<noteq> []" using "1.prems"(1,2) by (cases s) (simp_all add: tok_def)
  show ?case
  proof (cases "rest = []")
    case True
    then have "split_ws s = [tok]"
      unfolding tok_def rest_def by (rule split_ws_last)
    with tne show ?thesis by simp
  next
    case False
    define s' where "s' = dropWhile is_space rest"
    have sw: "split_ws s = tok # split_ws s'"
      using False unfolding tok_def rest_def s'_def by (rule split_ws_more)
    have lr: "last rest = last s" using False s by (metis last_appendR)
    then have "\<not> is_space (last rest)" using "1.prems"(3) by simp
    moreover have "last rest \<in> set rest" using False by simp
    ultimately have ne': "s' \<noteq> []" unfolding s'_def by (auto simp: dropWhile_eq_Nil_conv)
    then have hd': "\<not> is_space (hd s')" unfolding s'_def by (rule hd_dropWhile)
    have "rest = takeWhile is_space rest @ s'" by (simp add: s'_def)
    then have "last s' = last rest" using ne' by (metis last_appendR)
    then have last': "\<not> is_space (last s')" using lr "1.prems"(3) by simp
    have "[] \<notin> set (split_ws s')"
      using "1.IH" [of tok rest] False ne' hd' last' by (simp add: tok_def rest_def s'_def)
    with sw tne show ?thesis by simp
  qed
qed

lemma wordCount_eq:
  "(if trim t \<noteq> [] then length (split_ws (trim t)) else 0) = word_count t"
proof (cases "trim t = []")
  case True
  then show ?thesis by (simp add: word_count_def tokens_def)
next
  case False
  then have "[] \<notin> set (split_ws (trim t))"
    by (simp add: split_ws_no_empty trim_hd trim_last)
  then have "filter (\<lambda>f. f \<noteq> []) (split_ws (trim t)) = split_ws (trim t)"
    by (auto simp: filter_id_conv)
  then have "length (split_ws (trim t)) = length (tokens (trim t))"
    by (simp add: tokens_split_ws)
  with False show ?thesis by (simp add: word_count_def)
qed

lemma updateStats_stats:
  "document w textAreaId = Some textArea \<Longrightarrow>
   document (updateStats textAreaId statsId w) statsId =
     map_option (\<lambda>e. e\<lparr>textContent := stats_line (get_value textArea)\<rparr>) (document w statsId)"
  by (simp add: updateStats_def getElementById_def Let_def stats_line_def wordCount_eq
        split: option.splits)

text \<open>
  C7. When the text area and the statistics element exist and the text area holds \<open>t\<close>,
  \<open>updateStats\<close> writes "Characters: n | Words: m" where \<open>n\<close> is the length of \<open>t\<close> and
  \<open>m\<close> the number of white-space-delimited tokens of the trimmed \<open>t\<close>; that number is 0
  when \<open>t\<close> is empty or all white space. "Hello world" gives "Characters: 11 | Words: 2".
\<close>

theorem updateStats_counts:
  "(document w textAreaId = Some textArea \<and> document w statsId = Some stats \<and>
    get_value textArea = t
      \<longrightarrow> map_option textContent (document (updateStats textAreaId statsId w) statsId) =
            Some (lit ''Characters: '' @ show_nat (length t) @ lit '' | Words: '' @
                  show_nat (length (tokens (trim t))))) \<and>
   (trim t = [] \<longrightarrow> length (tokens (trim t)) = 0)"
  by (auto simp: updateStats_stats stats_line_def word_count_def tokens_def)

lemma hello_page_elements:
  "document hello_page ''inputText'' = Some (text_area (lit ''Hello world''))"
  "document hello_page ''inputStats'' = Some blank_element"
  by (simp_all add: hello_page_def)

lemma hello_area: "get_value (text_area (lit ''Hello world'')) = lit ''Hello world''"
proof -
  have "0x0D \<notin> set (lit ''Hello world'')" by (simp add: lit_def)
  then show ?thesis by (simp add: text_area_value normalize_newlines_id)
qed

lemma hello_stats:
  "lit ''Characters: '' @ show_nat (length (lit ''Hello world'')) @ lit '' | Words: '' @
     show_nat (length (tokens (trim (lit ''Hello world'')))) = lit ''Characters: 11 | Words: 2''"
  by (simp add: lit_def trim_def is_space_def tokens_def show_nat.simps)

lemma blank_trim: "trim (lit ''   '') = []"
  by (simp add: lit_def trim_def is_space_def)

theorem updateStats_counts_witness:
  "document hello_page ''inputText'' = Some (text_area (lit ''Hello world'')) \<and>
   document hello_page ''inputStats'' = Some blank_element \<and>
   get_value (text_area (lit ''Hello world'')) = lit ''Hello world'' \<and>
   map_option textContent (document (updateStats ''inputText'' ''inputStats'' hello_page) ''inputStats'') =
     Some (lit ''Characters: 11 | Words: 2'') \<and>
   trim (lit ''   '') = [] \<and> length (tokens (trim (lit ''   ''))) = 0"
  using updateStats_counts [of hello_page "''inputText''" "text_area (lit ''Hello world'')"
          "''inputStats''" blank_element "lit ''Hello world''"]
        updateStats_counts [of hello_page "''inputText''" "text_area (lit ''Hello world'')"
          "''inputStats''" blank_element "lit ''   ''"]
  by (simp add: hello_page_elements hello_area hello_stats blank_trim)

subsection \<open>Input validation\<close>

lemma trim_Nil_iff: "(trim t = []) = blank t"
proof -
  let ?d = "dropWhile is_space t"
  have "(\<forall>x\<in>set ?d. is_space x) = (?d = [])"
  proof
    assume a: "\<forall>x\<in>set ?d. is_space x"
    show "?d = []"
    proof (rule ccontr)
      assume n: "?d \<noteq> []"
      then have "\<not> is_space (hd ?d)" by (rule hd_dropWhile)
      moreover have "hd ?d \<in> set ?d" using n by simp
      ultimately show False using a by blast
    qed
  next
    assume e: "?d = []"
    show "\<forall>x\<in>set ?d. is_space x" unfolding e by simp
  qed
  then show ?thesis by (simp add: trim_def blank_def dropWhile_eq_Nil_conv)
qed

lemma showStatus_status_text:
  "document w ''statusBar'' \<noteq> None \<Longrightarrow> document w ''statusMessage'' \<noteq> None \<Longrightarrow>
   status_text (showStatus m t d w) = Some m"
  by (auto simp: status_text_def showStatus_message)

lemma validateInput_blank:
  "blank t \<Longrightarrow> validateInput t m w = (False, showStatus (lit ''Please enter some text'') ''error'' 3000 w)"
  by (simp add: validateInput_def trim_Nil_iff)

lemma validateInput_short:
  "\<not> blank t \<Longrightarrow> length (trim t) < unat m \<Longrightarrow>
   validateInput t m w =
     (False,
      showStatus (lit ''Text must be at least '' @ show_nat (unat m) @ lit '' characters'') ''error'' 3000 w)"
  by (auto simp: validateInput_def trim_Nil_iff blank_def)

lemma validateInput_pass:
  "\<not> blank t \<Longrightarrow> unat m \<le> length (trim t) \<Longrightarrow> validateInput t m w = (True, w)"
  by (auto simp: validateInput_def trim_Nil_iff blank_def)

text \<open>
  C6. For every text \<open>t\<close> and minimum length \<open>m\<close>, \<open>validateInput\<close> returns false when \<open>t\<close> is
  empty or white space only, returns false when the trimmed length of \<open>t\<close> is below \<open>m\<close>,
  and returns true, changing nothing, when \<open>t\<close> is not blank and its trimmed length is at
  least \<open>m\<close>. For a minimum of at least 1, as with the default and with every call of
  the program, a trimmed length of at least \<open>m\<close> is enough to return true. With the status
  bar on the page, a blank text shows "Please enter some text" and a short one shows
  "Text must be at least m characters".
\<close>

theorem validateInput_verdict:
  "(blank t \<longrightarrow> \<not> fst (validateInput t m w)) \<and>
   (length (trim t) < unat m \<longrightarrow> \<not> fst (validateInput t m w)) \<and>
   (\<not> blank t \<and> unat m \<le> length (trim t) \<longrightarrow> validateInput t m w = (True, w)) \<and>
   (1 \<le> unat m \<and> unat m \<le> length (trim t) \<longrightarrow> validateInput t m w = (True, w)) \<and>
   (document w ''statusBar'' \<noteq> None \<and> document w ''statusMessage'' \<noteq> None \<longrightarrow>
      (blank t \<longrightarrow>
         status_text (snd (validateInput t m w)) = Some (lit ''Please enter some text'')) \<and>
      (\<not> blank t \<and> length (trim t) < unat m \<longrightarrow>
         status_text (snd (validateInput t m w)) =
           Some (lit ''Text must be at least '' @ show_nat (unat m) @ lit '' characters'')))"
proof (intro conjI impI)
  assume "blank t"
  then show "\<not> fst (validateInput t m w)" by (simp add: validateInput_blank)
next
  assume "length (trim t) < unat m"
  then show "\<not> fst (validateInput t m w)"
    by (cases "blank t") (simp_all add: validateInput_blank validateInput_short)
next
  assume "\<not> blank t \<and> unat m \<le> length (trim t)"
  then show "validateInput t m w = (True, w)" by (simp add: validateInput_pass)
next
  assume h: "1 \<le> unat m \<and> unat m \<le> length (trim t)"
  then have "trim t \<noteq> []" by auto
  then have "\<not> blank t" by (simp add: trim_Nil_iff)
  with h show "validateInput t m w = (True, w)" by (simp add: validateInput_pass)
next
  assume "document w ''statusBar'' \<noteq> None \<and> document w ''statusMessage'' \<noteq> None" "blank t"
  then show "status_text (snd (validateInput t m w)) = Some (lit ''Please enter some text'')"
    by (simp add: validateInput_blank showStatus_status_text del: not_None_eq)
next
  assume "document w ''statusBar'' \<noteq> None \<and> document w ''statusMessage'' \<noteq> None"
    "\<not> blank t \<and> length (trim t) < unat m"
  then show "status_text (snd (validateInput t m w)) =
     Some (lit ''Text must be at least '' @ show_nat (unat m) @ lit '' characters'')"
    by (simp add: validateInput_short showStatus_status_text del: not_None_eq)
qed

lemma page_status:
  "document page ''statusBar'' \<noteq> None" "document page ''statusMessage'' \<noteq> None"
  by (simp_all add: page_def)

lemma blank_spaces: "blank (lit ''   '')"
  by (simp add: blank_def lit_def is_space_def)

lemma hi_facts: "\<not> blank (lit ''Hi'')" "length (trim (lit ''Hi'')) = 2"
  by (simp_all add: blank_def lit_def is_space_def trim_def)

lemma fox_not_blank: "\<not> blank fox_text"
  using trim_Nil_iff [of fox_text] by (simp add: fox_text_trim fox_text_ne)

lemma count_values: "unat (1 :: count) = 1" "unat (50 :: count) = 50"
  by simp_all

lemma at_least_50:
  "lit ''Text must be at least '' @ show_nat 50 @ lit '' characters'' =
   lit ''Text must be at least 50 characters''"
  by (simp add: lit_def show_nat.simps)

theorem validateInput_verdict_witness:
  "blank (lit ''   '') \<and> \<not> fst (validateInput (lit ''   '') 1 page) \<and>
   status_text (snd (validateInput (lit ''   '') 1 page)) = Some (lit ''Please enter some text'') \<and>
   \<not> blank (lit ''Hi'') \<and> length (trim (lit ''Hi'')) < unat (50 :: count) \<and>
   \<not> fst (validateInput (lit ''Hi'') 50 page) \<and>
   status_text (snd (validateInput (lit ''Hi'') 50 page)) =
     Some (lit ''Text must be at least 50 characters'') \<and>
   1 \<le> unat (50 :: count) \<and> unat (50 :: count) \<le> length (trim fox_text) \<and>
   validateInput fox_text 50 page = (True, page) \<and>
   validateInput (lit ''Hi'') 1 page = (True, page)"
  using validateInput_verdict [of "lit ''   ''" 1 page]
    validateInput_verdict [of "lit ''Hi''" 50 page]
    validateInput_verdict [of fox_text 50 page]
    validateInput_verdict [of "lit ''Hi''" 1 page]
  by (simp add: blank_spaces hi_facts fox_not_blank fox_text_trim fox_text_length page_status
        at_least_50 del: not_None_eq)

subsection \<open>Summarizing the translated text\<close>

lemma validateInput_snd_present [simp]:
  "(document (snd (validateInput t m w)) i = None) = (document w i = None)"
  by (simp add: validateInput_def)

lemma validateInput_snd_requests [simp]:
  "requests (snd (validateInput t m w)) = requests w"
  by (simp add: validateInput_def)

lemma summarize_translated_rejected:
  assumes "document w ''inputText'' = Some inp" "document w ''outputText'' = Some out"
    "getRadioValue ''summarySource'' w = Some (lit ''translated'')"
    "\<not> fst (validateInput (trim (get_value out)) 50 w)"
  shows "handleSummarize srv w =
     (Normal (),
      showStatus (lit ''Please translate text first or select '' @ [0x22] @ lit ''Original Text'' @ [0x22])
        ''error'' 3000 (snd (validateInput (trim (get_value out)) 50 w)))"
proof -
  have src: "or_default (getRadioValue ''summarySource'' w) (lit ''original'') = lit ''translated''"
    using assms(3) by (simp add: or_default_def lit_def)
  obtain w1 where v: "validateInput (trim (get_value out)) 50 w = (False, w1)"
    using assms(4) by (cases "validateInput (trim (get_value out)) 50 w") auto
  show ?thesis
    using assms(1,2) src v
    by (simp add: handleSummarize_def getElementById_def Let_def please_translate_first_def)
qed

text \<open>
  C5, amended. When the summary source is "translated" and the validation of the output
  text fails, for an empty output as for one shorter than 50 characters, the handler
  returns without issuing a request, and the status shown (with the status bar on the
  page) is \<open>Please translate text first or select "Original Text"\<close>.
\<close>

theorem summarize_translated_invalid:
  "document w ''inputText'' = Some inp \<and> document w ''outputText'' = Some out \<and>
   getRadioValue ''summarySource'' w = Some (lit ''translated'') \<and>
   \<not> fst (validateInput (trim (get_value out)) 50 w)
   \<longrightarrow> fst (handleSummarize srv w) = Normal () \<and>
       requests (snd (handleSummarize srv w)) = requests w \<and>
       (document w ''statusBar'' \<noteq> None \<and> document w ''statusMessage'' \<noteq> None \<longrightarrow>
          status_text (snd (handleSummarize srv w)) =
            Some (lit ''Please translate text first or select '' @ [0x22] @ lit ''Original Text'' @ [0x22]))"
  by (auto simp: summarize_translated_rejected showStatus_status_text simp del: not_None_eq)

lemma short_output_page_facts:
  "document short_output_page ''inputText'' = Some (text_area fox_text)"
  "document short_output_page ''outputText'' = Some (text_area (lit ''Hola''))"
  "getRadioValue ''summarySource'' short_output_page = Some (lit ''translated'')"
  "document short_output_page ''statusBar'' \<noteq> None"
  "document short_output_page ''statusMessage'' \<noteq> None"
  by (simp_all add: short_output_page_def page_def getRadioValue_def)

lemma hola_facts: "trim (lit ''Hola'') = lit ''Hola''" "length (lit ''Hola'') = 4" "lit ''Hola'' \<noteq> []"
  by (simp_all add: lit_def trim_def is_space_def)

lemma hola_area: "get_value (text_area (lit ''Hola'')) = lit ''Hola''"
proof -
  have "0x0D \<notin> set (lit ''Hola'')" by (simp add: lit_def)
  then show ?thesis by (simp add: text_area_value normalize_newlines_id)
qed

lemma hola_invalid:
  "\<not> fst (validateInput (trim (lit ''Hola'')) 50 w)"
  "\<not> fst (validateInput (lit ''Hola'') 50 w)"
  by (simp_all add: validateInput_def hola_facts)

theorem summarize_translated_invalid_witness:
  "document short_output_page ''inputText'' = Some (text_area fox_text) \<and>
   document short_output_page ''outputText'' = Some (text_area (lit ''Hola'')) \<and>
   getRadioValue ''summarySource'' short_output_page = Some (lit ''translated'') \<and>
   \<not> fst (validateInput (trim (get_value (text_area (lit ''Hola'')))) 50 short_output_page) \<and>
   fst (handleSummarize no_backend short_output_page) = Normal () \<and>
   requests (snd (handleSummarize no_backend short_output_page)) = requests short_output_page \<and>
   status_text (snd (handleSummarize no_backend short_output_page)) =
     Some (lit ''Please translate text first or select '' @ [0x22] @ lit ''Original Text'' @ [0x22])"
  using summarize_translated_invalid [of short_output_page "text_area fox_text"
          "text_area (lit ''Hola'')" no_backend]
  by (simp add: short_output_page_facts hola_area hola_invalid del: not_None_eq)

text \<open>
  C5 as stated fails: the message is also shown when a translation exists but is too
  short, here the four characters "Hola".
\<close>

theorem translate_first_shown_for_short_output:
  "getRadioValue ''summarySource'' short_output_page = Some (lit ''translated'') \<and>
   \<not> fst (validateInput (trim (lit ''Hola'')) 50 short_output_page) \<and>
   map_option get_value (document short_output_page ''outputText'') = Some (lit ''Hola'') \<and>
   \<not> (status_text (snd (handleSummarize no_backend short_output_page)) =
          Some (lit ''Please translate text first or select '' @ [0x22] @ lit ''Original Text'' @ [0x22])
        \<longleftrightarrow> lit ''Hola'' = [])"
  using summarize_translated_rejected [of short_output_page "text_area fox_text"
          "text_area (lit ''Hola'')" no_backend]
  by (simp add: short_output_page_facts hola_area hola_invalid hola_facts showStatus_status_text
        del: not_None_eq)

subsection \<open>Swapping the languages\<close>

lemma showStatus_bar:
  "document w ''statusBar'' = Some b \<Longrightarrow> document w ''statusMessage'' = Some e \<Longrightarrow>
   document (showStatus m ty d w) ''statusBar'' =
     Some (class_add ''show''
            ((if ty = ''success'' then class_add ''success''
              else if ty = ''error'' then class_add ''error'' else (\<lambda>x. x))
               (class_remove [''success'', ''error'', ''show''] b)))"
  by (simp add: showStatus_def getElementById_def Let_def)

lemma showStatus_error_class:
  assumes "document w ''statusBar'' \<noteq> None" "document w ''statusMessage'' \<noteq> None"
  shows "\<exists>cs. status_classes (showStatus m ''error'' d w) = Some cs \<and> ''error'' \<in> set cs"
proof -
  from assms obtain b e where "document w ''statusBar'' = Some b" "document w ''statusMessage'' = Some e"
    by auto
  then show ?thesis
    by (simp add: status_classes_def showStatus_bar class_add_def class_remove_def)
qed

lemma first_index_None: "(first_index P xs = None) = (\<forall>x\<in>set xs. \<not> P x)"
  by (induction xs) auto

lemma first_index_Some: "first_index P xs = Some i \<Longrightarrow> i < length xs \<and> P (xs ! i)"
  by (induction xs arbitrary: i) (auto split: if_splits)

lemma set_value_frame [simp]:
  "kind (set_value v e) = kind e"
  "options (set_value v e) = options e"
  "option_values (set_value v e) = option_values e"
  by (simp_all add: set_value_def option_values_def split: kind.splits)

lemma select_set_get:
  assumes "kind e = Select"
  shows "get_value (set_value v e) = (if v \<in> set (option_values e) then v else [])"
proof (cases "first_index (\<lambda>opt. opt_value opt = v) (options e)")
  case None
  then have "v \<notin> set (option_values e)"
    by (auto simp: first_index_None option_values_def)
  with None assms show ?thesis by (simp add: get_value_def set_value_def)
next
  case (Some i)
  then have i: "i < length (options e)" "opt_value (options e ! i) = v"
    using first_index_Some [of "\<lambda>opt. opt_value opt = v" "options e" i] by simp_all
  then have "v \<in> set (option_values e)"
    unfolding option_values_def by (metis length_map nth_map nth_mem)
  with Some i assms show ?thesis by (simp add: get_value_def set_value_def)
qed

lemma select_value_offered:
  "kind e = Select \<Longrightarrow> get_value e = [] \<or> get_value e \<in> set (option_values e)"
  by (auto simp: get_value_def option_values_def split: option.splits)

lemma auto_not_empty: "lit ''auto'' \<noteq> []"
  by (simp add: lit_def)

lemma swapLanguages_auto:
  assumes "document w ''sourceLanguage'' = Some s" "document w ''targetLanguage'' = Some t"
    "get_value s = lit ''auto''"
  shows "swapLanguages w = showStatus (lit ''Cannot swap with auto-detect'') ''error'' 2000 w"
  using assms by (simp add: swapLanguages_def getElementById_def)

lemma swapLanguages_swap:
  assumes "document w ''sourceLanguage'' = Some s" "document w ''targetLanguage'' = Some t"
    "get_value s \<noteq> lit ''auto''"
  shows "document (swapLanguages w) ''sourceLanguage'' = Some (set_value (get_value t) s)"
    "document (swapLanguages w) ''targetLanguage'' = Some (set_value (get_value s) t)"
  using assms by (simp_all add: swapLanguages_def getElementById_def Let_def showStatus_other)

lemma language_selectors_exchange:
  assumes ls: "language_selectors s t" and na: "get_value s \<noteq> lit ''auto''"
  shows "get_value (set_value (get_value t) s) = get_value t"
    "get_value (set_value (get_value s) t) = get_value s"
    "language_selectors (set_value (get_value t) s) (set_value (get_value s) t)"
    "get_value t \<noteq> lit ''auto''"
proof -
  from ls have ks: "kind s = Select" and kt: "kind t = Select"
    and ov: "set (option_values t) = set (option_values s) - {lit ''auto''}"
    by (simp_all add: language_selectors_def)
  from select_value_offered [OF kt] ov
  have tv: "get_value t = [] \<or> get_value t \<in> set (option_values s)" by auto
  from select_value_offered [OF ks] ov na
  have sv: "get_value s = [] \<or> get_value s \<in> set (option_values t)" by auto
  from tv show "get_value (set_value (get_value t) s) = get_value t"
    by (auto simp: select_set_get [OF ks])
  from sv show "get_value (set_value (get_value s) t) = get_value s"
    by (auto simp: select_set_get [OF kt])
  from ls show "language_selectors (set_value (get_value t) s) (set_value (get_value s) t)"
    by (simp add: language_selectors_def)
  show "get_value t \<noteq> lit ''auto''"
  proof
    assume e: "get_value t = lit ''auto''"
    have "lit ''auto'' \<notin> set (option_values t)" unfolding ov by simp
    with select_value_offered [OF kt] auto_not_empty show False unfolding e by simp
  qed
qed

text \<open>
  C8. Take the two language selectors as the application builds them, with whatever
  options selected. When the source value is "auto", \<open>swapLanguages\<close> changes neither
  selector and shows the error "Cannot swap with auto-detect"; otherwise it exchanges the
  two values, and applying it twice restores the original pair of values.
\<close>

theorem swapLanguages_pair:
  "document w ''sourceLanguage'' = Some s \<and> document w ''targetLanguage'' = Some t \<and>
   language_selectors s t \<longrightarrow>
     (get_value s = lit ''auto'' \<longrightarrow>
        document (swapLanguages w) ''sourceLanguage'' = Some s \<and>
        document (swapLanguages w) ''targetLanguage'' = Some t \<and>
        (document w ''statusBar'' \<noteq> None \<and> document w ''statusMessage'' \<noteq> None \<longrightarrow>
           status_text (swapLanguages w) = Some (lit ''Cannot swap with auto-detect'') \<and>
           (\<exists>cs. status_classes (swapLanguages w) = Some cs \<and> ''error'' \<in> set cs))) \<and>
     (get_value s \<noteq> lit ''auto'' \<longrightarrow>
        selector_values (swapLanguages w) = (Some (get_value t), Some (get_value s)) \<and>
        selector_values (swapLanguages (swapLanguages w)) = (Some (get_value s), Some (get_value t)))"
proof (intro impI conjI)
  assume p: "document w ''sourceLanguage'' = Some s \<and> document w ''targetLanguage'' = Some t \<and>
   language_selectors s t"
  {
    assume a: "get_value s = lit ''auto''"
    with p have eq: "swapLanguages w = showStatus (lit ''Cannot swap with auto-detect'') ''error'' 2000 w"
      by (simp add: swapLanguages_auto)
    from p show "document (swapLanguages w) ''sourceLanguage'' = Some s"
      unfolding eq by (simp add: showStatus_other)
    from p show "document (swapLanguages w) ''targetLanguage'' = Some t"
      unfolding eq by (simp add: showStatus_other)
    assume st: "document w ''statusBar'' \<noteq> None \<and> document w ''statusMessage'' \<noteq> None"
    then show "status_text (swapLanguages w) = Some (lit ''Cannot swap with auto-detect'')"
      unfolding eq by (simp add: showStatus_status_text del: not_None_eq)
    from st show "\<exists>cs. status_classes (swapLanguages w) = Some cs \<and> ''error'' \<in> set cs"
      unfolding eq by (simp add: showStatus_error_class del: not_None_eq)
  }
  {
    assume n: "get_value s \<noteq> lit ''auto''"
    let ?s = "set_value (get_value t) s" and ?t = "set_value (get_value s) t"
    from p have ls: "language_selectors s t" by simp
    note ex = language_selectors_exchange [OF ls n]
    from p n have 1: "document (swapLanguages w) ''sourceLanguage'' = Some ?s"
      and 2: "document (swapLanguages w) ''targetLanguage'' = Some ?t"
      by (simp_all add: swapLanguages_swap)
    from 1 2 show "selector_values (swapLanguages w) = (Some (get_value t), Some (get_value s))"
      by (simp add: selector_values_def ex(1,2))
    have n': "get_value ?s \<noteq> lit ''auto''" by (simp add: ex(1,4))
    note ex' = language_selectors_exchange [OF ex(3) n']
    have a: "get_value (set_value (get_value s) ?s) = get_value s"
      using ex'(1) by (simp add: ex(2))
    have b: "get_value (set_value (get_value t) ?t) = get_value t"
      using ex'(2) by (simp add: ex(1))
    have "document (swapLanguages (swapLanguages w)) ''sourceLanguage'' = Some (set_value (get_value s) ?s)"
      and "document (swapLanguages (swapLanguages w)) ''targetLanguage'' = Some (set_value (get_value t) ?t)"
      using swapLanguages_swap [OF 1 2 n'] by (simp_all add: ex(1,2))
    then show "selector_values (swapLanguages (swapLanguages w)) = (Some (get_value s), Some (get_value t))"
      by (simp add: selector_values_def a b)
  }
qed

lemma code_distinct:
  "lit ''en'' \<noteq> lit ''auto''" "lit ''hi'' \<noteq> lit ''auto''" "lit ''en'' \<noteq> lit ''hi''"
  "lit ''auto'' \<noteq> lit ''en''" "lit ''auto'' \<noteq> lit ''hi''" "lit ''hi'' \<noteq> lit ''en''"
  by (simp_all add: lit_eq_iff)

lemma page_selectors:
  "document page ''sourceLanguage'' = Some source_select"
  "document page ''targetLanguage'' = Some target_select"
  by (simp_all add: page_def)

lemma auto_source_page_selectors:
  "document auto_source_page ''sourceLanguage'' = Some (selector [auto_option, en_option, hi_option] (Some 0))"
  "document auto_source_page ''targetLanguage'' = Some target_select"
  "document auto_source_page ''statusBar'' \<noteq> None"
  "document auto_source_page ''statusMessage'' \<noteq> None"
  by (simp_all add: auto_source_page_def page_def)

lemma example_selectors:
  "language_selectors source_select target_select"
  "language_selectors (selector [auto_option, en_option, hi_option] (Some 0)) target_select"
  "get_value source_select = lit ''en''"
  "get_value target_select = lit ''hi''"
  "get_value (selector [auto_option, en_option, hi_option] (Some 0)) = lit ''auto''"
  by (auto simp: language_selectors_def option_values_def source_select_def target_select_def
        selector_def blank_element_def get_value_def auto_option_def en_option_def hi_option_def
        code_distinct)

theorem swapLanguages_pair_witness:
  "document page ''sourceLanguage'' = Some source_select \<and>
   document page ''targetLanguage'' = Some target_select \<and>
   language_selectors source_select target_select \<and>
   get_value source_select \<noteq> lit ''auto'' \<and>
   selector_values page = (Some (lit ''en''), Some (lit ''hi'')) \<and>
   selector_values (swapLanguages page) = (Some (lit ''hi''), Some (lit ''en'')) \<and>
   selector_values (swapLanguages (swapLanguages page)) = (Some (lit ''en''), Some (lit ''hi'')) \<and>
   get_value (selector [auto_option, en_option, hi_option] (Some 0)) = lit ''auto'' \<and>
   document (swapLanguages auto_source_page) ''sourceLanguage'' =
     Some (selector [auto_option, en_option, hi_option] (Some 0)) \<and>
   document (swapLanguages auto_source_page) ''targetLanguage'' = Some target_select \<and>
   status_text (swapLanguages auto_source_page) = Some (lit ''Cannot swap with auto-detect'')"
  using swapLanguages_pair [of page source_select target_select]
    swapLanguages_pair [of auto_source_page "selector [auto_option, en_option, hi_option] (Some 0)"
      target_select]
  by (simp add: page_selectors auto_source_page_selectors example_selectors code_distinct
        selector_values_def del: not_None_eq)

subsection \<open>Populating the language selectors\<close>

lemma append_language_document:
  "document (append_language i ex l w) =
     (if ex \<and> code l = lit ''auto'' then document w
      else (document w)(i := map_option (append_option (language_option l)) (document w i)))"
  by (simp add: append_language_def)

lemma append_language_rest [simp]:
  "state (append_language i ex l w) = state w"
  "requests (append_language i ex l w) = requests w"
  "radios (append_language i ex l w) = radios w"
  "timers (append_language i ex l w) = timers w"
  by (simp_all add: append_language_def)

lemma fold_append_language_rest [simp]:
  "state (fold (append_language i ex) langs w) = state w"
  "requests (fold (append_language i ex) langs w) = requests w"
  "radios (fold (append_language i ex) langs w) = radios w"
  "timers (fold (append_language i ex) langs w) = timers w"
  by (induction langs arbitrary: w) simp_all

lemma fold_append_language_other:
  "j \<noteq> i \<Longrightarrow> document (fold (append_language i ex) langs w) j = document w j"
  by (induction langs arbitrary: w) (simp_all add: append_language_document)

lemma fold_append_option:
  "fold append_option opts e =
     e\<lparr>options := options e @ opts,
       selectedIndex := (if kind e = Select \<and> selectedIndex e = None \<and> opts \<noteq> [] then Some 0
                         else selectedIndex e)\<rparr>"
proof (induction opts arbitrary: e)
  case Nil
  then show ?case by simp
next
  case (Cons opt opts)
  let ?e = "append_option opt e"
  have "fold append_option (opt # opts) e = fold append_option opts ?e" by simp
  also have "\<dots> =
     ?e\<lparr>options := options ?e @ opts,
        selectedIndex := (if kind ?e = Select \<and> selectedIndex ?e = None \<and> opts \<noteq> [] then Some 0
                          else selectedIndex ?e)\<rparr>"
    by (rule Cons.IH)
  also have "\<dots> =
     e\<lparr>options := options e @ opt # opts,
       selectedIndex := (if kind e = Select \<and> selectedIndex e = None \<and> opt # opts \<noteq> [] then Some 0
                         else selectedIndex e)\<rparr>"
    by (simp add: append_option_def)
  finally show ?case .
qed

lemma fold_append_language_element:
  "document (fold (append_language i ex) langs w) i =
     map_option
       (fold append_option
          (map language_option (filter (\<lambda>l. \<not> (ex \<and> code l = lit ''auto'')) langs)))
       (document w i)"
proof (induction langs arbitrary: w)
  case Nil
  then show ?case by (cases "document w i") simp_all
next
  case (Cons l langs)
  then show ?case
    by (cases "document w i") (simp_all add: append_language_document)
qed

lemma populate_element:
  "document w i = Some e \<Longrightarrow>
   document (populateLanguageDropdown i langs ex w) i =
     Some (e\<lparr>options := map language_option (filter (\<lambda>l. \<not> (ex \<and> code l = lit ''auto'')) langs),
             selectedIndex :=
               (if kind e = Select \<and> filter (\<lambda>l. \<not> (ex \<and> code l = lit ''auto'')) langs \<noteq> []
                then Some 0 else None)\<rparr>)"
  by (simp add: populateLanguageDropdown_def getElementById_def fold_append_language_element
        fold_append_option clear_options_def)

lemma populate_options:
  "document w i = Some e \<Longrightarrow>
   selector_options (populateLanguageDropdown i langs ex w) i =
     Some (map language_option (filter (\<lambda>l. \<not> (ex \<and> code l = lit ''auto'')) langs))"
  by (simp add: selector_options_def populate_element)

lemma populate_other:
  "j \<noteq> i \<Longrightarrow> document (populateLanguageDropdown i langs ex w) j = document w j"
  by (simp add: populateLanguageDropdown_def getElementById_def fold_append_language_other
        split: option.splits)

lemma populate_rest [simp]:
  "state (populateLanguageDropdown i langs ex w) = state w"
  "requests (populateLanguageDropdown i langs ex w) = requests w"
  by (simp_all add: populateLanguageDropdown_def getElementById_def split: option.splits)

text \<open>A populated drop-down selector has its first option selected.\<close>

lemma populate_selects_first:
  assumes "document w i = Some e" "kind e = Select"
  shows "map_option get_value (document (populateLanguageDropdown i langs ex w) i) =
     Some (case filter (\<lambda>l. \<not> (ex \<and> code l = lit ''auto'')) langs of
             [] \<Rightarrow> [] | l # ls \<Rightarrow> code l)"
  using assms
  by (simp add: populate_element get_value_def language_option_def split: list.splits)

lemma loadLanguages_success:
  assumes "success (reply srv (get_request ''/languages''))"
    "languages (reply srv (get_request ''/languages'')) = Some langs"
  shows "loadLanguages srv w =
     (Normal (),
      populateLanguageDropdown ''targetLanguage'' langs True
        (populateLanguageDropdown ''sourceLanguage'' langs False
           (w\<lparr>requests := requests w @ [get_request ''/languages''],
              state := (state w)\<lparr>state_languages := langs\<rparr>\<rparr>)))"
  using assms
  by (simp add: loadLanguages_def getLanguages_def try_catch_def and_then_def get_eq Let_def)

lemma loadLanguages_selectors:
  assumes "document w ''sourceLanguage'' = Some s" "document w ''targetLanguage'' = Some t"
    "success (reply srv (get_request ''/languages''))"
    "languages (reply srv (get_request ''/languages'')) = Some langs"
  shows "fst (loadLanguages srv w) = Normal ()"
    "document (snd (loadLanguages srv w)) ''sourceLanguage'' =
       Some (s\<lparr>options := map language_option langs,
               selectedIndex := (if kind s = Select \<and> langs \<noteq> [] then Some 0 else None)\<rparr>)"
    "document (snd (loadLanguages srv w)) ''targetLanguage'' =
       Some (t\<lparr>options := map language_option (filter (\<lambda>l. code l \<noteq> lit ''auto'') langs),
               selectedIndex :=
                 (if kind t = Select \<and> filter (\<lambda>l. code l \<noteq> lit ''auto'') langs \<noteq> []
                  then Some 0 else None)\<rparr>)"
proof -
  let ?w0 = "w\<lparr>requests := requests w @ [get_request ''/languages''],
              state := (state w)\<lparr>state_languages := langs\<rparr>\<rparr>"
  have eq: "loadLanguages srv w =
     (Normal (), populateLanguageDropdown ''targetLanguage'' langs True
        (populateLanguageDropdown ''sourceLanguage'' langs False ?w0))"
    using assms(3,4) by (simp add: loadLanguages_success)
  show "fst (loadLanguages srv w) = Normal ()" by (simp add: eq)
  have s0: "document ?w0 ''sourceLanguage'' = Some s" and t0: "document ?w0 ''targetLanguage'' = Some t"
    using assms(1,2) by simp_all
  show "document (snd (loadLanguages srv w)) ''sourceLanguage'' =
       Some (s\<lparr>options := map language_option langs,
               selectedIndex := (if kind s = Select \<and> langs \<noteq> [] then Some 0 else None)\<rparr>)"
    by (simp add: eq populate_other populate_element [OF s0])
  have "document (populateLanguageDropdown ''sourceLanguage'' langs False ?w0) ''targetLanguage'' = Some t"
    using t0 by (simp add: populate_other)
  then show "document (snd (loadLanguages srv w)) ''targetLanguage'' =
       Some (t\<lparr>options := map language_option (filter (\<lambda>l. code l \<noteq> lit ''auto'') langs),
               selectedIndex :=
                 (if kind t = Select \<and> filter (\<lambda>l. code l \<noteq> lit ''auto'') langs \<noteq> []
                  then Some 0 else None)\<rparr>)"
    by (simp add: eq populate_element)
qed

text \<open>
  The selectors that \<open>loadLanguages\<close> has populated are language selectors in the sense of
  C8: the target offers the values of the source but "auto".
\<close>

lemma loadLanguages_language_selectors:
  assumes "document w ''sourceLanguage'' = Some s" "document w ''targetLanguage'' = Some t"
    "kind s = Select" "kind t = Select"
    "success (reply srv (get_request ''/languages''))"
    "languages (reply srv (get_request ''/languages'')) = Some langs"
  shows "\<exists>s' t'. document (snd (loadLanguages srv w)) ''sourceLanguage'' = Some s' \<and>
           document (snd (loadLanguages srv w)) ''targetLanguage'' = Some t' \<and>
           language_selectors s' t'"
  using loadLanguages_selectors(2,3) [OF assms(1,2,5,6)] assms(3,4)
  by (auto simp: language_selectors_def option_values_def language_option_def)

text \<open>
  C9. Populating a selector with \<open>excludeAuto\<close> set, as is done for the target selector,
  yields the options of the records whose code is not "auto", and so no option of value
  "auto"; populating it without, as is done for the source selector, yields one option per
  record of the sequence, in order, the record of code "auto" included: the option of a
  record has its code as value and "name (native)" as text. After \<open>loadLanguages\<close> has
  received a list, the source selector holds the options of all records and the target
  selector those of all records but the ones of code "auto".
\<close>

theorem language_selectors_populated:
  "(document w selectId \<noteq> None \<longrightarrow>
      selector_options (populateLanguageDropdown selectId langs True w) selectId =
        Some (map (\<lambda>l. \<lparr>opt_value = code l, opt_text = name l @ lit '' ('' @ native l @ lit '')''\<rparr>)
                (filter (\<lambda>l. code l \<noteq> lit ''auto'') langs)) \<and>
      (\<forall>opts. selector_options (populateLanguageDropdown selectId langs True w) selectId = Some opts
          \<longrightarrow> lit ''auto'' \<notin> set (map opt_value opts)) \<and>
      selector_options (populateLanguageDropdown selectId langs False w) selectId =
        Some (map (\<lambda>l. \<lparr>opt_value = code l, opt_text = name l @ lit '' ('' @ native l @ lit '')''\<rparr>)
                langs)) \<and>
   (document w ''sourceLanguage'' \<noteq> None \<and> document w ''targetLanguage'' \<noteq> None \<and>
    success (reply srv (get_request ''/languages'')) \<and>
    languages (reply srv (get_request ''/languages'')) = Some langs \<longrightarrow>
      fst (loadLanguages srv w) = Normal () \<and>
      selector_options (snd (loadLanguages srv w)) ''sourceLanguage'' =
        Some (map (\<lambda>l. \<lparr>opt_value = code l, opt_text = name l @ lit '' ('' @ native l @ lit '')''\<rparr>)
                langs) \<and>
      selector_options (snd (loadLanguages srv w)) ''targetLanguage'' =
        Some (map (\<lambda>l. \<lparr>opt_value = code l, opt_text = name l @ lit '' ('' @ native l @ lit '')''\<rparr>)
                (filter (\<lambda>l. code l \<noteq> lit ''auto'') langs)) \<and>
      (\<forall>opts. selector_options (snd (loadLanguages srv w)) ''targetLanguage'' = Some opts
          \<longrightarrow> lit ''auto'' \<notin> set (map opt_value opts)))"
proof -
  have lo: "language_option =
      (\<lambda>l. \<lparr>opt_value = code l, opt_text = name l @ lit '' ('' @ native l @ lit '')''\<rparr>)"
    by (rule ext) (simp add: language_option_def)
  have part1: "selector_options (populateLanguageDropdown selectId langs True w) selectId =
        Some (map language_option (filter (\<lambda>l. code l \<noteq> lit ''auto'') langs)) \<and>
      selector_options (populateLanguageDropdown selectId langs False w) selectId =
        Some (map language_option langs)" if "document w selectId \<noteq> None"
  proof -
    from that obtain e where e: "document w selectId = Some e" by auto
    show ?thesis by (simp add: populate_options [OF e])
  qed
  have part2: "fst (loadLanguages srv w) = Normal () \<and>
      selector_options (snd (loadLanguages srv w)) ''sourceLanguage'' =
        Some (map language_option langs) \<and>
      selector_options (snd (loadLanguages srv w)) ''targetLanguage'' =
        Some (map language_option (filter (\<lambda>l. code l \<noteq> lit ''auto'') langs))"
    if h: "document w ''sourceLanguage'' \<noteq> None \<and> document w ''targetLanguage'' \<noteq> None \<and>
      success (reply srv (get_request ''/languages'')) \<and>
      languages (reply srv (get_request ''/languages'')) = Some langs"
  proof -
    from h obtain s t where s: "document w ''sourceLanguage'' = Some s"
      and t: "document w ''targetLanguage'' = Some t" by auto
    from h have ok: "success (reply srv (get_request ''/languages''))"
      "languages (reply srv (get_request ''/languages'')) = Some langs" by simp_all
    show ?thesis
      by (simp add: selector_options_def loadLanguages_selectors [OF s t ok])
  qed
  have no_auto: "lit ''auto'' \<notin> set (map opt_value
      (map language_option (filter (\<lambda>l. code l \<noteq> lit ''auto'') langs)))"
    by (auto simp: language_option_def)
  show ?thesis
    using part1 part2 no_auto unfolding lo by (intro conjI impI allI) auto
qed

lemma languages_backend_reply:
  "success (reply languages_backend req)"
  "languages (reply languages_backend req) = Some three_languages"
  by (simp_all add: reply_def languages_backend_def)

lemma three_languages_options:
  "map (\<lambda>l. \<lparr>opt_value = code l, opt_text = name l @ lit '' ('' @ native l @ lit '')''\<rparr>)
     three_languages = [auto_option, en_option, hi_option]"
  "map (\<lambda>l. \<lparr>opt_value = code l, opt_text = name l @ lit '' ('' @ native l @ lit '')''\<rparr>)
     (filter (\<lambda>l. code l \<noteq> lit ''auto'') three_languages) = [en_option, hi_option]"
  by (simp_all add: three_languages_def auto_option_def en_option_def hi_option_def code_distinct)
     (simp_all add: lit_def)

theorem language_selectors_populated_witness:
  "document page ''sourceLanguage'' \<noteq> None \<and> document page ''targetLanguage'' \<noteq> None \<and>
   success (reply languages_backend (get_request ''/languages'')) \<and>
   languages (reply languages_backend (get_request ''/languages'')) = Some three_languages \<and>
   fst (loadLanguages languages_backend page) = Normal () \<and>
   selector_options (snd (loadLanguages languages_backend page)) ''sourceLanguage'' =
     Some [\<lparr>opt_value = lit ''auto'', opt_text = lit ''Auto-detect (Auto)''\<rparr>,
           \<lparr>opt_value = lit ''en'', opt_text = lit ''English (English)''\<rparr>,
           \<lparr>opt_value = lit ''hi'', opt_text = lit ''Hindi (Hindi)''\<rparr>] \<and>
   selector_options (snd (loadLanguages languages_backend page)) ''targetLanguage'' =
     Some [\<lparr>opt_value = lit ''en'', opt_text = lit ''English (English)''\<rparr>,
           \<lparr>opt_value = lit ''hi'', opt_text = lit ''Hindi (Hindi)''\<rparr>] \<and>
   selector_options (populateLanguageDropdown ''targetLanguage'' three_languages False page)
       ''targetLanguage'' =
     Some [\<lparr>opt_value = lit ''auto'', opt_text = lit ''Auto-detect (Auto)''\<rparr>,
           \<lparr>opt_value = lit ''en'', opt_text = lit ''English (English)''\<rparr>,
           \<lparr>opt_value = lit ''hi'', opt_text = lit ''Hindi (Hindi)''\<rparr>]"
  using language_selectors_populated [of page "''targetLanguage''" three_languages languages_backend]
  by (simp add: page_selectors languages_backend_reply three_languages_options
        auto_option_def [symmetric] en_option_def [symmetric] hi_option_def [symmetric]
        del: not_None_eq)

subsection \<open>Effects of a translate or summarize response\<close>

lemmas others = showStatus_other showLoading_other hideLoading_other updateStats_other
  updateOutputButtons_other

lemma translate_try_eq:
  assumes "document w ''sourceLanguage'' = Some s" "document w ''targetLanguage'' = Some t"
    "document w ''translationModel'' = Some m"
  shows "translate_try srv text w =
    (let r = reply srv (post_request ''/translate''
               [(''text'', text), (''source'', get_value s), (''target'', get_value t),
                (''model'', get_value m)]);
         w0 = w\<lparr>requests := requests w @ [post_request ''/translate''
               [(''text'', text), (''source'', get_value s), (''target'', get_value t),
                (''model'', get_value m)]]\<rparr>
     in if success r then
          (Normal (),
           showStatus (check_mark @ lit '' Translated in '' @ to_string (processing_time r) @ lit ''s'')
             ''success'' 3000
             (updateOutputButtons True
               (updateStats ''outputText'' ''outputStats''
                 ((update_element ''outputText'' (set_value (to_string (translated_text r))) w0)
                    \<lparr>state := (state w0)\<lparr>currentOutputText := translated_text r\<rparr>\<rparr>))))
        else
          (Normal (),
           showStatus (or_default (error r) (lit ''Translation failed'')) ''error'' 5000
             (update_element ''outputText'' (set_value []) w0)))"
  using assms
  by (simp add: translate_try_def translate_def post_eq and_then_def getElementById_def Let_def)

lemma translate_request_eq:
  assumes "document w ''translateBtn'' \<noteq> None"
  shows "snd (translate_request srv text w) =
     snd (hideLoading ''translateBtn'' ''translateSpinner''
       (snd (try_catch (translate_try srv text)
               (\<lambda>error w. (Normal (),
                  showStatus (lit ''An error occurred during translation'') ''error'' 3000 w))
               (showStatus (lit ''Translating...'') ''info'' 0
                  (snd (showLoading ''translateBtn'' ''translateSpinner'' w))))))"
  using assms
  by (simp add: translate_request_def and_then_proj try_finally_proj showLoading_fst
        del: not_None_eq split: completion.splits)


lemma summarize_try_eq:
  assumes "document w ''summaryModel'' = Some m"
  shows "summarize_try srv text len format w =
    (let r = reply srv (post_request ''/summarize''
               [(''text'', text), (''model'', get_value m), (''length'', len), (''format'', format)]);
         w0 = w\<lparr>requests := requests w @ [post_request ''/summarize''
               [(''text'', text), (''model'', get_value m), (''length'', len), (''format'', format)]]\<rparr>
     in if success r then
          (Normal (),
           showStatus (check_mark @ lit '' Summarized in '' @ to_string (processing_time r) @ lit ''s'')
             ''success'' 3000
             (updateOutputButtons True
               (updateStats ''outputText'' ''outputStats''
                 ((update_element ''outputText'' (set_value (to_string (summary r))) w0)
                    \<lparr>state := (state w0)\<lparr>currentOutputText := summary r\<rparr>\<rparr>))))
        else
          (Normal (), showStatus (or_default (error r) (lit ''Summarization failed'')) ''error'' 5000 w0))"
  using assms
  by (simp add: summarize_try_def summarize_def post_eq and_then_def getElementById_def Let_def)

lemma summarize_request_eq:
  assumes "document w ''summarizeBtn'' \<noteq> None"
  shows "snd (summarize_request srv text len format w) =
     snd (hideLoading ''summarizeBtn'' ''summarizeSpinner''
       (snd (try_catch (summarize_try srv text len format)
               (\<lambda>error w. (Normal (),
                  showStatus (lit ''An error occurred during summarization'') ''error'' 3000 w))
               (showStatus (lit ''Summarizing...'') ''info'' 0
                  (snd (showLoading ''summarizeBtn'' ''summarizeSpinner'' w))))))"
  using assms
  by (simp add: summarize_request_def and_then_proj try_finally_proj showLoading_fst
        del: not_None_eq split: completion.splits)

lemma translate_success_world:
  assumes "document w ''inputText'' = Some inp" "document w ''outputText'' = Some out"
    "trim (get_value inp) \<noteq> []" "document w ''translateBtn'' \<noteq> None"
    "document w ''sourceLanguage'' = Some s" "document w ''targetLanguage'' = Some t"
    "document w ''translationModel'' = Some m"
    "success (reply srv (translate_payload inp s t m))"
  shows "snd (handleTranslate srv w) =
     snd (hideLoading ''translateBtn'' ''translateSpinner''
       (showStatus (check_mark @ lit '' Translated in '' @
            to_string (processing_time (reply srv (translate_payload inp s t m))) @ lit ''s'')
          ''success'' 3000
          (updateOutputButtons True
            (updateStats ''outputText'' ''outputStats''
              ((update_element ''outputText''
                  (set_value (to_string (translated_text (reply srv (translate_payload inp s t m)))))
                  ((showStatus (lit ''Translating...'') ''info'' 0
                     (snd (showLoading ''translateBtn'' ''translateSpinner'' w)))
                   \<lparr>requests := requests w @ [translate_payload inp s t m]\<rparr>))
               \<lparr>state := (state w)\<lparr>currentOutputText :=
                    translated_text (reply srv (translate_payload inp s t m))\<rparr>\<rparr>)))))"
proof -
  let ?w2 = "showStatus (lit ''Translating...'') ''info'' 0
               (snd (showLoading ''translateBtn'' ''translateSpinner'' w))"
  have p: "document ?w2 ''sourceLanguage'' = Some s" "document ?w2 ''targetLanguage'' = Some t"
    "document ?w2 ''translationModel'' = Some m"
    using assms(5-7) by (simp_all add: others)
  show ?thesis
    using assms(8)
    by (simp add: handleTranslate_request [OF assms(1-3)] translate_request_eq [OF assms(4)]
          try_catch_proj translate_try_eq [OF p] translate_payload_def Let_def)
qed

lemma translate_failure_world:
  assumes "document w ''inputText'' = Some inp" "document w ''outputText'' = Some out"
    "trim (get_value inp) \<noteq> []" "document w ''translateBtn'' \<noteq> None"
    "document w ''sourceLanguage'' = Some s" "document w ''targetLanguage'' = Some t"
    "document w ''translationModel'' = Some m"
    "\<not> success (reply srv (translate_payload inp s t m))"
  shows "snd (handleTranslate srv w) =
     snd (hideLoading ''translateBtn'' ''translateSpinner''
       (showStatus (or_default (error (reply srv (translate_payload inp s t m))) (lit ''Translation failed''))
          ''error'' 5000
          (update_element ''outputText'' (set_value [])
             ((showStatus (lit ''Translating...'') ''info'' 0
                 (snd (showLoading ''translateBtn'' ''translateSpinner'' w)))
              \<lparr>requests := requests w @ [translate_payload inp s t m]\<rparr>))))"
proof -
  let ?w2 = "showStatus (lit ''Translating...'') ''info'' 0
               (snd (showLoading ''translateBtn'' ''translateSpinner'' w))"
  have p: "document ?w2 ''sourceLanguage'' = Some s" "document ?w2 ''targetLanguage'' = Some t"
    "document ?w2 ''translationModel'' = Some m"
    using assms(5-7) by (simp_all add: others)
  show ?thesis
    using assms(8)
    by (simp add: handleTranslate_request [OF assms(1-3)] translate_request_eq [OF assms(4)]
          try_catch_proj translate_try_eq [OF p] translate_payload_def Let_def)
qed

lemma summarize_failure_world:
  assumes "document w ''inputText'' = Some inp" "document w ''outputText'' = Some out"
    "50 \<le> length (summary_source_text w inp out)" "document w ''summarizeBtn'' \<noteq> None"
    "document w ''summaryModel'' = Some m"
    "\<not> success (reply srv (summarize_payload w inp out m))"
  shows "snd (handleSummarize srv w) =
     snd (hideLoading ''summarizeBtn'' ''summarizeSpinner''
       (showStatus (or_default (error (reply srv (summarize_payload w inp out m))) (lit ''Summarization failed''))
          ''error'' 5000
          ((showStatus (lit ''Summarizing...'') ''info'' 0
              (snd (showLoading ''summarizeBtn'' ''summarizeSpinner'' w)))
           \<lparr>requests := requests w @ [summarize_payload w inp out m]\<rparr>)))"
proof -
  let ?w2 = "showStatus (lit ''Summarizing...'') ''info'' 0
               (snd (showLoading ''summarizeBtn'' ''summarizeSpinner'' w))"
  have p: "document ?w2 ''summaryModel'' = Some m"
    using assms(5) by (simp add: others)
  show ?thesis
    using assms(6)
    by (simp add: handleSummarize_request [OF assms(1-3)] summarize_request_eq [OF assms(4)]
          try_catch_proj summarize_try_eq [OF p] summarize_payload_def Let_def)
qed


lemma updateStats_stats_case:
  "document (updateStats textAreaId statsId w) statsId =
     (case document w textAreaId of
        None \<Rightarrow> document w statsId
      | Some textArea \<Rightarrow>
          map_option (\<lambda>e. e\<lparr>textContent := stats_line (get_value textArea)\<rparr>) (document w statsId))"
  by (cases "document w textAreaId")
     (simp_all add: updateStats_stats, simp add: updateStats_def getElementById_def)

lemma text_area_set_value:
  "kind e = TextArea \<Longrightarrow> set_value v e = e\<lparr>val := v\<rparr>"
  "kind e = TextArea \<Longrightarrow> get_value (e\<lparr>val := v\<rparr>) = normalize_newlines v"
  by (simp_all add: set_value_def get_value_def)

text \<open>
  C4, amended. Take a translate action that reaches its request: the input area, the
  output text area, the translate button, the two language selectors and the model
  selector exist and the trimmed input is not empty. On a success response carrying the
  text \<open>tr\<close>, the output area is given \<open>tr\<close> and holds it with the line breaks normalised
  (CR LF and CR read as LF), which is \<open>tr\<close> itself when it has no CR; the output
  statistics (when on the page) show the length and the word count of the text so held;
  and the copy and download buttons (when on the page) are enabled. On a failure response,
  including a transport failure, the output area is emptied and the two buttons are left
  as they were.
\<close>

theorem translate_response_effects:
  "document w ''inputText'' = Some inp \<and> document w ''outputText'' = Some out \<and>
   kind out = TextArea \<and>
   trim (get_value inp) \<noteq> [] \<and> document w ''translateBtn'' \<noteq> None \<and>
   document w ''sourceLanguage'' = Some s \<and> document w ''targetLanguage'' = Some t \<and>
   document w ''translationModel'' = Some m \<longrightarrow>
     (success (reply srv (translate_payload inp s t m)) \<and>
      translated_text (reply srv (translate_payload inp s t m)) = Some tr \<longrightarrow>
        document (snd (handleTranslate srv w)) ''outputText'' = Some (out\<lparr>val := tr\<rparr>) \<and>
        map_option get_value (document (snd (handleTranslate srv w)) ''outputText'') =
          Some (normalize_newlines tr) \<and>
        (0x0D \<notin> set tr \<longrightarrow> normalize_newlines tr = tr) \<and>
        document (snd (handleTranslate srv w)) ''outputStats'' =
          map_option
            (\<lambda>e. e\<lparr>textContent :=
               lit ''Characters: '' @ show_nat (length (normalize_newlines tr)) @ lit '' | Words: '' @
               show_nat (length (tokens (trim (normalize_newlines tr))))\<rparr>)
            (document w ''outputStats'') \<and>
        document (snd (handleTranslate srv w)) ''copyOutput'' =
          map_option (\<lambda>e. e\<lparr>disabled := False\<rparr>) (document w ''copyOutput'') \<and>
        document (snd (handleTranslate srv w)) ''downloadOutput'' =
          map_option (\<lambda>e. e\<lparr>disabled := False\<rparr>) (document w ''downloadOutput'')) \<and>
     (\<not> success (reply srv (translate_payload inp s t m)) \<longrightarrow>
        document (snd (handleTranslate srv w)) ''outputText'' = Some (out\<lparr>val := []\<rparr>) \<and>
        map_option get_value (document (snd (handleTranslate srv w)) ''outputText'') = Some [] \<and>
        document (snd (handleTranslate srv w)) ''copyOutput'' = document w ''copyOutput'' \<and>
        document (snd (handleTranslate srv w)) ''downloadOutput'' = document w ''downloadOutput'')"
proof (intro impI conjI)
  assume h: "document w ''inputText'' = Some inp \<and> document w ''outputText'' = Some out \<and>
   kind out = TextArea \<and>
   trim (get_value inp) \<noteq> [] \<and> document w ''translateBtn'' \<noteq> None \<and>
   document w ''sourceLanguage'' = Some s \<and> document w ''targetLanguage'' = Some t \<and>
   document w ''translationModel'' = Some m"
  let ?r = "reply srv (translate_payload inp s t m)"
  {
    assume ok: "success ?r \<and> translated_text ?r = Some tr"
    have eq: "snd (handleTranslate srv w) =
     snd (hideLoading ''translateBtn'' ''translateSpinner''
       (showStatus (check_mark @ lit '' Translated in '' @ to_string (processing_time ?r) @ lit ''s'')
          ''success'' 3000
          (updateOutputButtons True
            (updateStats ''outputText'' ''outputStats''
              ((update_element ''outputText'' (set_value (to_string (translated_text ?r)))
                  ((showStatus (lit ''Translating...'') ''info'' 0
                     (snd (showLoading ''translateBtn'' ''translateSpinner'' w)))
                   \<lparr>requests := requests w @ [translate_payload inp s t m]\<rparr>))
               \<lparr>state := (state w)\<lparr>currentOutputText := translated_text ?r\<rparr>\<rparr>)))))"
      using h ok by (intro translate_success_world) simp_all
    from h ok show out': "document (snd (handleTranslate srv w)) ''outputText'' = Some (out\<lparr>val := tr\<rparr>)"
      unfolding eq by (simp add: others to_string_def text_area_set_value)
    from h show "map_option get_value (document (snd (handleTranslate srv w)) ''outputText'') =
          Some (normalize_newlines tr)"
      by (simp add: out' text_area_set_value)
    from h ok show "document (snd (handleTranslate srv w)) ''outputStats'' =
          map_option
            (\<lambda>e. e\<lparr>textContent :=
               lit ''Characters: '' @ show_nat (length (normalize_newlines tr)) @ lit '' | Words: '' @
               show_nat (length (tokens (trim (normalize_newlines tr))))\<rparr>)
            (document w ''outputStats'')"
      unfolding eq
      by (simp add: others updateStats_stats_case to_string_def text_area_set_value stats_line_def
            word_count_def)
    from h ok show "document (snd (handleTranslate srv w)) ''copyOutput'' =
          map_option (\<lambda>e. e\<lparr>disabled := False\<rparr>) (document w ''copyOutput'')"
      unfolding eq by (simp add: others updateOutputButtons_copy)
    from h ok show "document (snd (handleTranslate srv w)) ''downloadOutput'' =
          map_option (\<lambda>e. e\<lparr>disabled := False\<rparr>) (document w ''downloadOutput'')"
      unfolding eq by (simp add: others updateOutputButtons_download)
    assume "0x0D \<notin> set tr"
    then show "normalize_newlines tr = tr" by (rule normalize_newlines_id)
  }
  {
    assume bad: "\<not> success ?r"
    have eq: "snd (handleTranslate srv w) =
     snd (hideLoading ''translateBtn'' ''translateSpinner''
       (showStatus (or_default (error ?r) (lit ''Translation failed'')) ''error'' 5000
          (update_element ''outputText'' (set_value [])
             ((showStatus (lit ''Translating...'') ''info'' 0
                 (snd (showLoading ''translateBtn'' ''translateSpinner'' w)))
              \<lparr>requests := requests w @ [translate_payload inp s t m]\<rparr>))))"
      using h bad by (intro translate_failure_world) simp_all
    from h show out': "document (snd (handleTranslate srv w)) ''outputText'' = Some (out\<lparr>val := []\<rparr>)"
      unfolding eq by (simp add: others text_area_set_value)
    from h show "map_option get_value (document (snd (handleTranslate srv w)) ''outputText'') = Some []"
      by (simp add: out' text_area_set_value)
    from h show "document (snd (handleTranslate srv w)) ''copyOutput'' = document w ''copyOutput''"
      unfolding eq by (simp add: others)
    from h show "document (snd (handleTranslate srv w)) ''downloadOutput'' = document w ''downloadOutput''"
      unfolding eq by (simp add: others)
  }
qed

text \<open>
  C10. On a failure response to a summarize request the output area is left unchanged, and
  on a failure response to a summarize or a translate request \<open>currentOutputText\<close> keeps
  its value.
\<close>

theorem failure_keeps_output_state:
  "(document w ''inputText'' = Some inp \<and> document w ''outputText'' = Some out \<and>
    50 \<le> length (summary_source_text w inp out) \<and> document w ''summarizeBtn'' \<noteq> None \<and>
    document w ''summaryModel'' = Some m \<and>
    \<not> success (reply srv (summarize_payload w inp out m)) \<longrightarrow>
      document (snd (handleSummarize srv w)) ''outputText'' = Some out \<and>
      currentOutputText (state (snd (handleSummarize srv w))) = currentOutputText (state w)) \<and>
   (document w ''inputText'' = Some inp \<and> document w ''outputText'' = Some out \<and>
    trim (get_value inp) \<noteq> [] \<and> document w ''translateBtn'' \<noteq> None \<and>
    document w ''sourceLanguage'' = Some s \<and> document w ''targetLanguage'' = Some t \<and>
    document w ''translationModel'' = Some tm \<and>
    \<not> success (reply srv (translate_payload inp s t tm)) \<longrightarrow>
      currentOutputText (state (snd (handleTranslate srv w))) = currentOutputText (state w))"
proof (intro conjI impI)
  assume h: "document w ''inputText'' = Some inp \<and> document w ''outputText'' = Some out \<and>
    50 \<le> length (summary_source_text w inp out) \<and> document w ''summarizeBtn'' \<noteq> None \<and>
    document w ''summaryModel'' = Some m \<and>
    \<not> success (reply srv (summarize_payload w inp out m))"
  have eq: "snd (handleSummarize srv w) =
     snd (hideLoading ''summarizeBtn'' ''summarizeSpinner''
       (showStatus (or_default (error (reply srv (summarize_payload w inp out m))) (lit ''Summarization failed''))
          ''error'' 5000
          ((showStatus (lit ''Summarizing...'') ''info'' 0
              (snd (showLoading ''summarizeBtn'' ''summarizeSpinner'' w)))
           \<lparr>requests := requests w @ [summarize_payload w inp out m]\<rparr>)))"
    using h by (intro summarize_failure_world) simp_all
  from h show "document (snd (handleSummarize srv w)) ''outputText'' = Some out"
    unfolding eq by (simp add: others)
  show "currentOutputText (state (snd (handleSummarize srv w))) = currentOutputText (state w)"
    unfolding eq by simp
next
  assume h: "document w ''inputText'' = Some inp \<and> document w ''outputText'' = Some out \<and>
    trim (get_value inp) \<noteq> [] \<and> document w ''translateBtn'' \<noteq> None \<and>
    document w ''sourceLanguage'' = Some s \<and> document w ''targetLanguage'' = Some t \<and>
    document w ''translationModel'' = Some tm \<and>
    \<not> success (reply srv (translate_payload inp s t tm))"
  have eq: "snd (handleTranslate srv w) =
     snd (hideLoading ''translateBtn'' ''translateSpinner''
       (showStatus (or_default (error (reply srv (translate_payload inp s t tm))) (lit ''Translation failed''))
          ''error'' 5000
          (update_element ''outputText'' (set_value [])
             ((showStatus (lit ''Translating...'') ''info'' 0
                 (snd (showLoading ''translateBtn'' ''translateSpinner'' w)))
              \<lparr>requests := requests w @ [translate_payload inp s t tm]\<rparr>))))"
    using h by (intro translate_failure_world) simp_all
  show "currentOutputText (state (snd (handleTranslate srv w))) = currentOutputText (state w)"
    unfolding eq by simp
qed

lemma page_translate_elements:
  "document page ''sourceLanguage'' = Some source_select"
  "document page ''targetLanguage'' = Some target_select"
  "document page ''translationModel'' = Some model_select"
  "document page ''summaryModel'' = Some model_select"
  "document page ''outputStats'' = Some blank_element"
  "document page ''copyOutput'' = Some (blank_element\<lparr>disabled := True\<rparr>)"
  "document page ''downloadOutput'' = Some (blank_element\<lparr>disabled := True\<rparr>)"
  by (simp_all add: page_def)

lemma translated_page_elements:
  "document translated_page ''inputText'' = Some (text_area fox_text)"
  "document translated_page ''outputText'' = Some (text_area namaste)"
  "document translated_page ''sourceLanguage'' = Some source_select"
  "document translated_page ''targetLanguage'' = Some target_select"
  "document translated_page ''translationModel'' = Some model_select"
  "document translated_page ''summaryModel'' = Some model_select"
  "document translated_page ''translateBtn'' \<noteq> None"
  "document translated_page ''summarizeBtn'' \<noteq> None"
  "radios translated_page = Map.empty"
  "currentOutputText (state translated_page) = Some namaste"
  by (simp_all add: translated_page_def page_def)

lemma backend_replies:
  "success (reply translating_backend req)"
  "translated_text (reply translating_backend req) = Some namaste"
  "success (reply two_lines_backend req)"
  "translated_text (reply two_lines_backend req) = Some two_lines"
  "\<not> success (reply failing_backend req)"
  "\<not> success (reply no_backend req)"
  by (simp_all add: reply_def translating_backend_def two_lines_backend_def failing_backend_def
        no_backend_def connection_failure_def)

lemma namaste_facts:
  "0x0D \<notin> set namaste"
  "lit ''Characters: '' @ show_nat (length namaste) @ lit '' | Words: '' @
     show_nat (length (tokens (trim namaste))) = lit ''Characters: 14 | Words: 2''"
  by (simp_all add: namaste_def lit_def trim_def is_space_def tokens_def show_nat.simps)

lemma two_lines_length: "length two_lines = 4"
  by (simp add: two_lines_def)

lemma two_lines_changed: "normalize_newlines two_lines \<noteq> two_lines"
  by (simp add: two_lines_def)

lemma two_lines_stats:
  "lit ''Characters: '' @ show_nat (length (normalize_newlines two_lines)) @ lit '' | Words: '' @
     show_nat (length (tokens (trim (normalize_newlines two_lines)))) =
   lit ''Characters: 3 | Words: 2''"
  by (simp add: two_lines_def lit_def trim_def is_space_def tokens_def show_nat.simps)

theorem translate_response_effects_witness:
  "document page ''inputText'' = Some (text_area fox_text) \<and>
   document page ''outputText'' = Some (text_area []) \<and> kind (text_area []) = TextArea \<and>
   trim (get_value (text_area fox_text)) \<noteq> [] \<and>
   document page ''translateBtn'' \<noteq> None \<and>
   success (reply translating_backend
      (translate_payload (text_area fox_text) source_select target_select model_select)) \<and>
   translated_text (reply translating_backend
      (translate_payload (text_area fox_text) source_select target_select model_select)) =
     Some namaste \<and>
   0x0D \<notin> set namaste \<and>
   map_option get_value (document (snd (handleTranslate translating_backend page)) ''outputText'') =
     Some namaste \<and>
   document (snd (handleTranslate translating_backend page)) ''outputStats'' =
     Some (blank_element\<lparr>textContent := lit ''Characters: 14 | Words: 2''\<rparr>) \<and>
   document (snd (handleTranslate translating_backend page)) ''copyOutput'' =
     Some (blank_element\<lparr>disabled := False\<rparr>) \<and>
   document (snd (handleTranslate translating_backend page)) ''downloadOutput'' =
     Some (blank_element\<lparr>disabled := False\<rparr>) \<and>
   \<not> success (reply no_backend
      (translate_payload (text_area fox_text) source_select target_select model_select)) \<and>
   map_option get_value (document (snd (handleTranslate no_backend page)) ''outputText'') = Some [] \<and>
   document (snd (handleTranslate no_backend page)) ''copyOutput'' =
     Some (blank_element\<lparr>disabled := True\<rparr>) \<and>
   document (snd (handleTranslate no_backend page)) ''downloadOutput'' =
     Some (blank_element\<lparr>disabled := True\<rparr>)"
  using translate_response_effects [of page "text_area fox_text" "text_area []"
          source_select target_select model_select translating_backend namaste]
        translate_response_effects [of page "text_area fox_text" "text_area []"
          source_select target_select model_select no_backend namaste]
  by (simp add: page_elements page_translate_elements backend_replies fox_area fox_text_trim
        fox_text_ne text_area_kind text_area_set_value namaste_facts normalize_newlines_id
        del: not_None_eq)

text \<open>
  C4 as stated fails for a translation with a CR: the reply "a", CR, LF, "b" has four code
  units, the output area holds three ("a", LF, "b"), and the statistics show
  "Characters: 3".
\<close>

theorem translate_two_lines_normalised:
  "success (reply two_lines_backend
      (translate_payload (text_area fox_text) source_select target_select model_select)) \<and>
   translated_text (reply two_lines_backend
      (translate_payload (text_area fox_text) source_select target_select model_select)) =
     Some two_lines \<and>
   length two_lines = 4 \<and>
   map_option get_value (document (snd (handleTranslate two_lines_backend page)) ''outputText'') \<noteq>
     Some two_lines \<and>
   map_option textContent (document (snd (handleTranslate two_lines_backend page)) ''outputStats'') =
     Some (lit ''Characters: 3 | Words: 2'')"
proof -
  let ?r = "reply two_lines_backend
      (translate_payload (text_area fox_text) source_select target_select model_select)"
  have eq: "snd (handleTranslate two_lines_backend page) =
     snd (hideLoading ''translateBtn'' ''translateSpinner''
       (showStatus (check_mark @ lit '' Translated in '' @ to_string (processing_time ?r) @ lit ''s'')
          ''success'' 3000
          (updateOutputButtons True
            (updateStats ''outputText'' ''outputStats''
              ((update_element ''outputText'' (set_value (to_string (translated_text ?r)))
                  ((showStatus (lit ''Translating...'') ''info'' 0
                     (snd (showLoading ''translateBtn'' ''translateSpinner'' page)))
                   \<lparr>requests := requests page @
                      [translate_payload (text_area fox_text) source_select target_select model_select]\<rparr>))
               \<lparr>state := (state page)\<lparr>currentOutputText := translated_text ?r\<rparr>\<rparr>)))))"
    by (intro translate_success_world [where out = "text_area []"])
       (simp_all add: page_elements page_translate_elements backend_replies fox_area fox_text_trim
          fox_text_ne del: not_None_eq)
  have out: "document (snd (handleTranslate two_lines_backend page)) ''outputText'' =
      Some ((text_area [])\<lparr>val := two_lines\<rparr>)"
    unfolding eq
    by (simp add: others page_elements backend_replies to_string_def text_area_set_value
          text_area_kind)
  have stats: "document (snd (handleTranslate two_lines_backend page)) ''outputStats'' =
      Some (blank_element\<lparr>textContent := lit ''Characters: 3 | Words: 2''\<rparr>)"
    unfolding eq
    by (simp add: others page_elements page_translate_elements backend_replies
          updateStats_stats_case to_string_def text_area_set_value text_area_kind stats_line_def
          word_count_def two_lines_stats)
  show ?thesis
    by (simp add: out stats backend_replies text_area_set_value text_area_kind two_lines_length
          two_lines_changed)
qed

theorem failure_keeps_output_state_witness:
  "document translated_page ''outputText'' = Some (text_area namaste) \<and>
   currentOutputText (state translated_page) = Some namaste \<and>
   50 \<le> length (summary_source_text translated_page (text_area fox_text) (text_area namaste)) \<and>
   \<not> success (reply failing_backend
      (summarize_payload translated_page (text_area fox_text) (text_area namaste) model_select)) \<and>
   document (snd (handleSummarize failing_backend translated_page)) ''outputText'' =
     Some (text_area namaste) \<and>
   currentOutputText (state (snd (handleSummarize failing_backend translated_page))) = Some namaste \<and>
   currentOutputText (state (snd (handleTranslate failing_backend translated_page))) = Some namaste"
  using failure_keeps_output_state [of translated_page "text_area fox_text" "text_area namaste"
          model_select failing_backend source_select target_select model_select]
  by (simp add: translated_page_elements backend_replies fox_area fox_text_trim fox_text_ne
        fox_text_length summary_source_text_def or_default_def lit_eq_iff del: not_None_eq)

end
